theory Spec2Isabelle
  imports Complex_Main
begin

section \<open>JavaScript numbers\<close>

text \<open>
  A number of the source is an IEEE 754 double: every \<^verbatim>\<open>+\<close>, \<^verbatim>\<open>*\<close> and \<^verbatim>\<open>/\<close> of the
  code gives the double nearest to the exact result, a tie going to the even
  mantissa. The model has the finite doubles as a type of their own. \<open>NaN\<close> and the
  infinities are left out (no overflow: the exponent has no upper limit), and \<open>-0\<close>
  is \<open>0\<close>.

  \<open>expo x\<close> is the binary exponent of a positive \<open>x\<close>, the \<open>e\<close> with
  \<open>2 powi e \<le> x < 2 powi (e + 1)\<close>; \<open>bexp\<close> stops it at \<open>-1022\<close>, where the subnormal numbers
  begin. \<open>quantum x\<close> is the distance between neighbouring doubles at \<open>x\<close> (53 bits of
  mantissa), \<open>rhe\<close> rounds to the nearest integer with a tie going to the even one, and
  \<open>fl x\<close> is the double nearest to \<open>x\<close>.
\<close>

function ex_up :: "real \<Rightarrow> int" where
  "ex_up x = (if 2 \<le> x then 1 + ex_up (x / 2) else 0)"
  by pat_completeness auto
termination
proof (relation "measure (\<lambda>x. nat \<lfloor>x\<rfloor>)")
  show "wf (measure (\<lambda>x::real. nat \<lfloor>x\<rfloor>))" by simp
next
  fix x :: real
  assume "2 \<le> x"
  then have "\<lfloor>x / 2\<rfloor> < \<lfloor>x\<rfloor>" and "0 < \<lfloor>x\<rfloor>" by linarith+
  then show "(x / 2, x) \<in> measure (\<lambda>x. nat \<lfloor>x\<rfloor>)" by simp
qed

function ex_down :: "real \<Rightarrow> int" where
  "ex_down x = (if 0 < x \<and> x < 1 then ex_down (2 * x) - 1 else 0)"
  by pat_completeness auto
termination
proof (relation "measure (\<lambda>x. nat \<lceil>1 / x\<rceil>)")
  show "wf (measure (\<lambda>x::real. nat \<lceil>1 / x\<rceil>))" by simp
next
  fix x :: real
  assume a: "0 < x \<and> x < 1"
  define y where "y = 1 / x"
  from a have y: "1 < y" by (simp add: y_def)
  then have c: "2 \<le> \<lceil>y\<rceil>" by linarith
  have le: "y \<le> of_int \<lceil>y\<rceil>" by linarith
  from c have c2: "(2::real) \<le> of_int \<lceil>y\<rceil>" by simp
  from le c2 have "y / 2 \<le> of_int \<lceil>y\<rceil> - 1" by linarith
  then have "y / 2 \<le> of_int (\<lceil>y\<rceil> - 1)" by simp
  then have "\<lceil>y / 2\<rceil> \<le> \<lceil>y\<rceil> - 1" by (simp only: ceiling_le_iff)
  with c have "nat \<lceil>y / 2\<rceil> < nat \<lceil>y\<rceil>" by linarith
  moreover have e: "1 / (2 * x) = y / 2" by (simp add: y_def)
  ultimately have "nat \<lceil>1 / (2 * x)\<rceil> < nat \<lceil>1 / x\<rceil>"
    unfolding e unfolding y_def by - assumption
  then show "(2 * x, x) \<in> measure (\<lambda>x. nat \<lceil>1 / x\<rceil>)" by (simp only: in_measure)
qed

declare ex_up.simps [simp del] ex_down.simps [simp del]

definition expo :: "real \<Rightarrow> int" where
  "expo x = (if 1 \<le> x then ex_up x else ex_down x)"

definition bexp :: "real \<Rightarrow> int" where
  "bexp x = max (expo \<bar>x\<bar>) (- 1022)"

definition quantum :: "real \<Rightarrow> real" where
  "quantum x = 2 powi (bexp x - 52)"

definition rhe :: "real \<Rightarrow> int" where
  "rhe y = (let n = \<lfloor>y\<rfloor>; r = y - of_int n
            in if r < 1 / 2 then n else if 1 / 2 < r then n + 1
               else if even n then n else n + 1)"

definition fl :: "real \<Rightarrow> real" where
  "fl x = (if x = 0 then 0 else quantum x * of_int (rhe (x / quantum x)))"

text \<open>
  The doubles: the reals that \<open>fl\<close> leaves as they are. \<open>val\<close> is the real a double
  stands for; \<open>num x\<close> is the double that a literal \<open>x\<close> of the source denotes and
  that \<^verbatim>\<open>JSON.parse\<close> and \<^verbatim>\<open>Number(...)\<close> give for the text \<open>x\<close>.
\<close>

typedef double = "{x::real. fl x = x}"
  morphisms val Abs_double
  by (rule exI [of _ 0]) (simp add: fl_def)

definition num :: "real \<Rightarrow> double" where
  "num x = Abs_double (fl x)"

text \<open>\<^verbatim>\<open>x + y\<close>, \<^verbatim>\<open>x * y\<close> and \<^verbatim>\<open>x / y\<close>; the divisors of the code are the constants
  \<open>10\<close> and \<open>0.621371\<close>.\<close>

definition d_add :: "double \<Rightarrow> double \<Rightarrow> double" where
  "d_add x y = Abs_double (fl (val x + val y))"

definition d_mul :: "double \<Rightarrow> double \<Rightarrow> double" where
  "d_mul x y = Abs_double (fl (val x * val y))"

definition d_div :: "double \<Rightarrow> double \<Rightarrow> double" where
  "d_div x y = Abs_double (fl (val x / val y))"

text \<open>
  \<^verbatim>\<open>Math.round(x)\<close> is the integer nearest to \<open>x\<close>, a tie going up. The result is
  exact: it is a double whenever \<open>x\<close> is one.
\<close>

definition Math_round :: "double \<Rightarrow> double" where
  "Math_round x = Abs_double (of_int \<lfloor>val x + 1 / 2\<rfloor>)"

text \<open>Two doubles are the same when they stand for the same real.\<close>

instantiation double :: equal
begin

definition equal_double :: "double \<Rightarrow> double \<Rightarrow> bool" where
  "equal_double x y \<longleftrightarrow> val x = val y"

instance
  by standard (simp add: equal_double_def val_inject)

end

section \<open>Data model\<close>

text \<open>
  The types \<open>Day\<close>, \<open>Run\<close>, \<open>Week\<close> and \<open>TrainingPlan\<close> are imported by
  \<^verbatim>\<open>TrainingTable.tsx\<close> from \<^verbatim>\<open>@/lib/planGenerator\<close>; their fields are the ones
  the components read and write and the ones \<^verbatim>\<open>runSchema\<close> and \<^verbatim>\<open>weekSchema\<close> of
  \<^verbatim>\<open>planSchema.ts\<close> list.

  Modelling decisions:
  \<^item> A distance, a time and a weekly total are \<open>double\<close>s, and the arithmetic on them
    is the one of the section above. A number used as an array index or as the
    number of a week is an \<open>int\<close>.
  \<^item> An optional field is an \<open>option\<close>; \<open>None\<close> is \<^verbatim>\<open>undefined\<close>.
  \<^item> A day bucket is a list of \<open>Run option\<close>: \<open>None\<close> is a hole (\<^verbatim>\<open>undefined\<close> or
    \<^verbatim>\<open>null\<close>) in the array, which the code filters out in several places and which
    \<^verbatim>\<open>moveWorkout\<close> can itself insert.
  \<^item> \<^verbatim>\<open>week.days\<close> is a \<^verbatim>\<open>Record<Day, Run[]>\<close>: all seven keys are present and
    every value is an array, so it is a total function from \<open>Day\<close>.
\<close>

datatype Day = Mon | Tue | Wed | Thu | Fri | Sat | Sun

datatype RunType = Rest | Easy | Long | Interval | Tempo | Race | Strength

datatype MeasurementType = MDistance | MTime

record Run =
  run_id :: string
  run_type :: RunType
  measurementType :: "MeasurementType option"
  distance :: "double option"
  time :: "double option"
  run_notes :: "string option"
  nickname :: "string option"
  description :: "string option"

record Week =
  week :: int
  startDate :: string
  days :: "Day \<Rightarrow> Run option list"
  weeklyTotal :: double

text \<open>\<^verbatim>\<open>const days: Day[] = ["Mon", "Tue", "Wed", "Thu", "Fri", "Sat", "Sun"]\<close>.\<close>

definition days_list :: "Day list" where
  "days_list = [Mon, Tue, Wed, Thu, Fri, Sat, Sun]"

section \<open>JavaScript library functions used by the code\<close>

text \<open>\<^verbatim>\<open>Object.values(week.days)\<close>: the seven buckets, in key order.\<close>

definition Object_values :: "(Day \<Rightarrow> 'a) \<Rightarrow> 'a list" where
  "Object_values ds = map ds days_list"

text \<open>\<^verbatim>\<open>arr.filter(Boolean)\<close> on an array of objects and holes drops the holes.\<close>

definition filter_Boolean :: "'a option list \<Rightarrow> 'a list" where
  "filter_Boolean xs = map the (filter (\<lambda>x. x \<noteq> None) xs)"

text \<open>
  \<^verbatim>\<open>arr.map((x, index) => f(x, index))\<close>: the callback gets the element and its
  position.
\<close>

definition Array_map :: "('a \<Rightarrow> int \<Rightarrow> 'b) \<Rightarrow> 'a list \<Rightarrow> 'b list" where
  "Array_map f xs = map (\<lambda>i. f (xs ! i) (int i)) [0..<length xs]"

text \<open>
  \<^verbatim>\<open>arr[i]\<close> for a number \<open>i\<close>: the element, or \<^verbatim>\<open>undefined\<close> when \<open>i\<close> is not a
  position of the array. On a bucket the result \<open>None\<close> is \<^verbatim>\<open>undefined\<close>, whether it
  was read from a hole or from outside the array.
\<close>

definition js_nth :: "'a option list \<Rightarrow> int \<Rightarrow> 'a option" where
  "js_nth xs i = (if 0 \<le> i \<and> nat i < length xs then xs ! nat i else None)"

text \<open>
  \<^verbatim>\<open>arr.splice(start, ...)\<close> first clamps \<open>start\<close>: a negative \<open>start\<close> counts from
  the end, and a \<open>start\<close> beyond the end is the end.
\<close>

definition splice_start :: "int \<Rightarrow> nat \<Rightarrow> nat" where
  "splice_start start len =
     (if start < 0 then nat (max (int len + start) 0) else min (nat start) len)"

text \<open>
  \<^verbatim>\<open>arr.splice(start, 1)\<close>: the array that is left, and the array of removed
  elements that the call returns (empty when \<open>start\<close> is the end).
\<close>

definition splice_delete1 :: "'a list \<Rightarrow> int \<Rightarrow> 'a list \<times> 'a list" where
  "splice_delete1 xs start =
     (let s = splice_start start (length xs)
      in (take s xs @ drop (Suc s) xs, take 1 (drop s xs)))"

text \<open>\<^verbatim>\<open>arr.splice(start, 0, x)\<close>: the array with \<open>x\<close> inserted.\<close>

definition splice_insert :: "'a list \<Rightarrow> int \<Rightarrow> 'a \<Rightarrow> 'a list" where
  "splice_insert xs start x =
     (let s = splice_start start (length xs) in take s xs @ x # drop s xs)"

text \<open>
  \<^verbatim>\<open>const [movedRun] = removed\<close>: the first element, \<^verbatim>\<open>undefined\<close> for an empty
  array.
\<close>

definition first_of :: "'a option list \<Rightarrow> 'a option" where
  "first_of removed = (case removed of [] \<Rightarrow> None | x # _ \<Rightarrow> x)"

section \<open>Weekly total (TrainingTable.tsx, \<open>recalculateWeeklyTotal\<close>)\<close>

text \<open>
  \<^verbatim>\<open>typeof run.distance === "number" ? run.distance : 0\<close>, and the two nested
  \<^verbatim>\<open>reduce\<close> of \<open>recalculateWeeklyTotal\<close>: the sum of a bucket starts from \<open>0\<close> and
  is then added to the total so far. Every value of \<^verbatim>\<open>week.days\<close> is an array, so
  the guard \<^verbatim>\<open>!Array.isArray(dayRuns)\<close> never holds.
\<close>

definition distance_or_0 :: "Run \<Rightarrow> double" where
  "distance_or_0 run = (case distance run of Some d \<Rightarrow> d | None \<Rightarrow> num 0)"

definition recalculateWeeklyTotal :: "Week \<Rightarrow> Week" where
  "recalculateWeeklyTotal wk =
     (let total = Math_round
            (foldl (\<lambda>total dayRuns.
                      let safeRuns = filter_Boolean dayRuns
                      in d_add total
                           (foldl (\<lambda>dayTotal run. d_add dayTotal (distance_or_0 run)) (num 0) safeRuns))
                   (num 0) (Object_values (days wk)))
      in wk\<lparr>weeklyTotal := total\<rparr>)"

text \<open>
  The runs of a week, and the sum the weekly total is compared with. The numeric
  distances of a bucket are the \<open>distance\<close> of every run that has one, whatever its
  \<open>measurementType\<close>. A sum of doubles is taken from the left, starting from \<open>0\<close>,
  as \<^verbatim>\<open>reduce\<close> does; the sum of a week is the sum of the sums of its seven buckets.
\<close>

definition weekRuns :: "Week \<Rightarrow> Run list" where
  "weekRuns wk = concat (map (\<lambda>d. filter_Boolean (days wk d)) days_list)"

definition numericDistances :: "Run option list \<Rightarrow> double list" where
  "numericDistances b =
     map (\<lambda>run. the (distance run)) (filter (\<lambda>run. distance run \<noteq> None) (filter_Boolean b))"

definition double_sum :: "double list \<Rightarrow> double" where
  "double_sum xs = foldl d_add (num 0) xs"

definition numericDistanceSum :: "Week \<Rightarrow> double" where
  "numericDistanceSum wk =
     double_sum (map (\<lambda>d. double_sum (numericDistances (days wk d))) days_list)"

section \<open>Schema wrapper (planSchema.ts)\<close>

datatype Source = generated | imported | edited

record 'settings TrainingPlanSchema =
  version :: string
  createdAt :: string
  updatedAt :: string
  source :: Source
  settings :: 'settings
  plan :: "Week list"

text \<open>
  \<^verbatim>\<open>cleanPlanData\<close>: every bucket loses its \<^verbatim>\<open>null\<close> and \<^verbatim>\<open>undefined\<close> entries.
  A \<^verbatim>\<open>TrainingPlan\<close> is an object with the one field \<^verbatim>\<open>weeks\<close>, modelled as the list
  of its weeks.
\<close>

definition cleanPlanData :: "Week list \<Rightarrow> Week list" where
  "cleanPlanData weeks =
     map (\<lambda>wk. wk\<lparr>days := (\<lambda>day. filter (\<lambda>run. run \<noteq> None) (days wk day))\<rparr>) weeks"

text \<open>
  \<^verbatim>\<open>updateSchemaAfterEdit\<close>; \<open>now\<close> is \<^verbatim>\<open>new Date().toISOString()\<close>.
\<close>

definition updateSchemaAfterEdit ::
  "string \<Rightarrow> 'settings TrainingPlanSchema \<Rightarrow> Week list \<Rightarrow> 'settings TrainingPlanSchema" where
  "updateSchemaAfterEdit now schema p =
     (let cleanedPlan = cleanPlanData p
      in schema\<lparr>updatedAt := now,
                source := (if source schema = generated then edited else source schema),
                plan := cleanedPlan\<rparr>)"

text \<open>
  A session of edits: \<^verbatim>\<open>updatePlan\<close> of \<^verbatim>\<open>useTrainingSession\<close> calls
  \<^verbatim>\<open>updateSchemaAfterEdit\<close> once for every edited plan, each at its own time.
\<close>

fun editsOf ::
  "'settings TrainingPlanSchema \<Rightarrow> (string \<times> Week list) list \<Rightarrow> 'settings TrainingPlanSchema" where
  "editsOf schema [] = schema"
| "editsOf schema ((now, p) # rest) = editsOf (updateSchemaAfterEdit now schema p) rest"

section \<open>Mutation handlers (TrainingTable.tsx)\<close>

text \<open>
  Every handler maps over the \<open>weeks\<close> of the component state and hands the new array
  to \<^verbatim>\<open>setWeeks\<close> and \<^verbatim>\<open>onUpdatePlan\<close>; the model returns that array. None of
  \<open>handleUpdateRun\<close>, \<open>handleAddRun\<close>, \<open>handleRemoveRun\<close> and the reordering branch
  of \<open>handleDragEnd\<close> has a \<^verbatim>\<open>throw\<close>, and with all seven day keys present none of
  their property reads can fail, so they return a plan and never an error.
\<close>

record Updates =
  upd_measurementType :: "MeasurementType option"
  upd_distance :: "double option"
  upd_time :: "double option"
  upd_description :: "string option"

text \<open>
  The body of \<^verbatim>\<open>if (runs[runIndex]) { ... }\<close> of \<open>handleUpdateRun\<close>: the updated copy
  of the run.
\<close>

definition applyUpdates :: "Run \<Rightarrow> Updates \<Rightarrow> Run" where
  "applyUpdates run updates =
     (let r1 = (case upd_measurementType updates of
                  None \<Rightarrow> run
                | Some MDistance \<Rightarrow> run\<lparr>measurementType := Some MDistance, time := None\<rparr>
                | Some MTime \<Rightarrow> run\<lparr>measurementType := Some MTime, distance := None\<rparr>);
          r2 = (case upd_distance updates of None \<Rightarrow> r1 | Some d \<Rightarrow> r1\<lparr>distance := Some d\<rparr>);
          r3 = (case upd_time updates of None \<Rightarrow> r2 | Some t \<Rightarrow> r2\<lparr>time := Some t\<rparr>);
          r4 = (case upd_description updates of None \<Rightarrow> r3 | Some s \<Rightarrow> r3\<lparr>description := Some s\<rparr>)
      in r4)"

definition handleUpdateRun :: "Week list \<Rightarrow> int \<Rightarrow> Day \<Rightarrow> int \<Rightarrow> Updates \<Rightarrow> Week list" where
  "handleUpdateRun weeks weekIndex day runIndex updates =
     Array_map (\<lambda>wk index.
        if index = weekIndex then
          (let runs = days wk day
           in case js_nth runs runIndex of
                Some run \<Rightarrow>
                  recalculateWeeklyTotal
                    (wk\<lparr>days := (days wk)(day := runs[nat runIndex := Some (applyUpdates run updates)])\<rparr>)
              | None \<Rightarrow> wk)
        else wk) weeks"



text \<open>
  \<open>handleAddRun\<close>. The new id is
  \<^verbatim>\<open>`${weekIndex}-${day}-${workout.type}-${Math.random().toString(36).substr(2, 9)}`\<close>;
  the model takes the finished string as the argument \<open>newId\<close>. \<^verbatim>\<open>x || y\<close> is
  \<open>y\<close> when \<open>x\<close> is \<^verbatim>\<open>undefined\<close> or \<open>0\<close>.
\<close>

record Workout =
  w_type :: RunType
  w_nickname :: "string option"
  w_measurementType :: "MeasurementType option"
  w_distance :: "double option"
  w_time :: "double option"
  w_description :: "string option"

definition newRun :: "string \<Rightarrow> Workout \<Rightarrow> Run" where
  "newRun newId workout =
     (let measurementType = (case w_measurementType workout of Some m \<Rightarrow> m | None \<Rightarrow> MDistance);
          defaultDistance =
            (if w_type workout = Strength then num 0
             else (case w_distance workout of
                     Some d \<Rightarrow> if val d = 0 then num 5 else d
                   | None \<Rightarrow> num 5));
          defaultTime =
            (case w_time workout of
               Some t \<Rightarrow> if val t = 0 then (if measurementType = MTime then Some (num 30) else None)
                         else Some t
             | None \<Rightarrow> if measurementType = MTime then Some (num 30) else None)
      in \<lparr>run_id = newId,
          run_type = w_type workout,
          measurementType = Some measurementType,
          distance = (if measurementType = MDistance then Some defaultDistance else None),
          time = (if measurementType = MTime then defaultTime else None),
          run_notes = None,
          nickname = w_nickname workout,
          description = w_description workout\<rparr>)"

definition handleAddRun :: "Week list \<Rightarrow> int \<Rightarrow> Day \<Rightarrow> string \<Rightarrow> Workout \<Rightarrow> Week list" where
  "handleAddRun weeks weekIndex day newId workout =
     Array_map (\<lambda>wk index.
        if index = weekIndex then
          (let runs = days wk day @ [Some (newRun newId workout)]
           in recalculateWeeklyTotal (wk\<lparr>days := (days wk)(day := runs)\<rparr>))
        else wk) weeks"

definition handleRemoveRun :: "Week list \<Rightarrow> int \<Rightarrow> Day \<Rightarrow> int \<Rightarrow> Week list" where
  "handleRemoveRun weeks weekIndex day runIndex =
     Array_map (\<lambda>wk index.
        if index = weekIndex then
          (let runs = fst (splice_delete1 (days wk day) runIndex)
           in recalculateWeeklyTotal (wk\<lparr>days := (days wk)(day := runs)\<rparr>))
        else wk) weeks"

text \<open>
  The branch of \<open>handleDragEnd\<close> for a workout dropped on another workout of the same
  week and day (\<open>reorderWithinDay\<close> of the specification). It runs only when the two
  positions differ; otherwise the handler leaves the state as it is.
\<close>

definition reorderWithinDay :: "Week list \<Rightarrow> int \<Rightarrow> Day \<Rightarrow> int \<Rightarrow> int \<Rightarrow> Week list" where
  "reorderWithinDay weeks activeWeekIndex activeDay activeRunIndex overRunIndex =
     (if activeRunIndex \<noteq> overRunIndex then
        Array_map (\<lambda>wk weekIndex.
           if weekIndex = activeWeekIndex then
             (let (runs, removed) = splice_delete1 (days wk activeDay) activeRunIndex;
                  movedRun = first_of removed;
                  runs' = splice_insert runs overRunIndex movedRun
              in wk\<lparr>days := (days wk)(activeDay := runs')\<rparr>)
           else wk) weeks
      else weeks)"

subsection \<open>\<open>moveWorkout\<close>\<close>

text \<open>
  \<open>moveWorkout\<close> is the one handler whose result depends on the objects it shares
  with the state. \<^verbatim>\<open>const updatedWeek = { ...week }\<close> copies the week object but
  not the object \<^verbatim>\<open>week.days\<close>, so \<^verbatim>\<open>updatedWeek.days[fromDay] = fromRuns\<close> also
  changes \<^verbatim>\<open>weeks[weekIndex].days\<close>, and the callback for the destination week
  reads \<^verbatim>\<open>weeks[fromWeekIndex].days[fromDay][fromRunIndex]\<close>. The model therefore
  passes the array \<open>weeks\<close> as a state through the calls of the callback, in the order
  in which \<^verbatim>\<open>map\<close> makes them: one call takes the current \<open>weeks\<close> and returns
  \<open>weeks\<close> with the days object of the current week as the call leaves it, and the week
  the callback returns. The arrays of runs are copied before they are spliced
  (\<^verbatim>\<open>[...updatedWeek.days[fromDay]]\<close>), so they are values. Each week of the state has
  a days object of its own, as after \<^verbatim>\<open>JSON.parse\<close>.

  Each call also reports the weeks that its calls of \<open>recalculateWeeklyTotal\<close>
  returned, in order.

  \<^verbatim>\<open>weeks[fromWeekIndex]\<close> is \<^verbatim>\<open>undefined\<close> when \<open>fromWeekIndex\<close> is no position
  of the array, and reading \<^verbatim>\<open>.days\<close> of it throws a \<^verbatim>\<open>TypeError\<close>. \<open>Error msg\<close> is
  \<^verbatim>\<open>throw new Error(msg)\<close>.
\<close>

datatype error = TypeError | Error string

record MoveArgs =
  fromWeekIndex :: int
  fromDay :: Day
  fromRunIndex :: int
  toWeekIndex :: int
  toDay :: Day
  toRunIndex :: int

definition moveWorkout_callback ::
  "MoveArgs \<Rightarrow> Week list \<Rightarrow> nat \<Rightarrow> error + (Week list \<times> Week \<times> Week list)" where
  "moveWorkout_callback a weeks weekIndex =
     (let wk = weeks ! weekIndex in
      if int weekIndex = fromWeekIndex a then
        (let (fromRuns, removed) = splice_delete1 (days wk (fromDay a)) (fromRunIndex a);
             movedRun = first_of removed;
             days1 = (days wk)(fromDay a := fromRuns);
             sourceWeek = recalculateWeeklyTotal (wk\<lparr>days := days1\<rparr>)
         in if fromWeekIndex a = toWeekIndex a then
              (let toRuns = splice_insert (days1 (toDay a)) (toRunIndex a) movedRun;
                   days2 = days1(toDay a := toRuns);
                   result = recalculateWeeklyTotal (sourceWeek\<lparr>days := days2\<rparr>)
               in Inr (weeks[weekIndex := wk\<lparr>days := days2\<rparr>], result,
                       [sourceWeek, result]))
            else Inr (weeks[weekIndex := wk\<lparr>days := days1\<rparr>], sourceWeek, [sourceWeek]))
      else if int weekIndex = toWeekIndex a \<and> fromWeekIndex a \<noteq> toWeekIndex a then
        (if 0 \<le> fromWeekIndex a \<and> nat (fromWeekIndex a) < length weeks then
           (let sourceWeek = weeks ! nat (fromWeekIndex a);
                movedRun = js_nth (days sourceWeek (fromDay a)) (fromRunIndex a);
                toRuns = splice_insert (days wk (toDay a)) (toRunIndex a) movedRun;
                days1 = (days wk)(toDay a := toRuns);
                result = recalculateWeeklyTotal (wk\<lparr>days := days1\<rparr>)
            in Inr (weeks[weekIndex := wk\<lparr>days := days1\<rparr>], result, [result]))
         else Inl TypeError)
      else Inr (weeks, wk, []))"

text \<open>
  \<^verbatim>\<open>weeks.map(callback)\<close>: the calls for the positions \<open>is\<close>, in order; \<open>acc\<close> is the
  array of returned weeks so far and \<open>recs\<close> the recalculations so far. An exception
  ends the handler.
\<close>

fun moveWorkout_map ::
  "MoveArgs \<Rightarrow> nat list \<Rightarrow> Week list \<Rightarrow> Week list \<Rightarrow> Week list \<Rightarrow> error + (Week list \<times> Week list)" where
  "moveWorkout_map a [] weeks acc recs = Inr (acc, recs)"
| "moveWorkout_map a (i # is) weeks acc recs =
     (case moveWorkout_callback a weeks i of
        Inl e \<Rightarrow> Inl e
      | Inr (weeks', w, calls) \<Rightarrow> moveWorkout_map a is weeks' (acc @ [w]) (recs @ calls))"

definition moveWorkout_run :: "Week list \<Rightarrow> MoveArgs \<Rightarrow> error + (Week list \<times> Week list)" where
  "moveWorkout_run weeks a = moveWorkout_map a [0..<length weeks] weeks [] []"

text \<open>The plan \<open>moveWorkout\<close> hands to \<^verbatim>\<open>onUpdatePlan\<close>.\<close>

definition moveWorkout :: "Week list \<Rightarrow> MoveArgs \<Rightarrow> error + Week list" where
  "moveWorkout weeks a = map_sum id fst (moveWorkout_run weeks a)"

text \<open>The weeks its calls of \<open>recalculateWeeklyTotal\<close> returned, in order.\<close>

definition moveWorkout_recalculations :: "Week list \<Rightarrow> MoveArgs \<Rightarrow> error + Week list" where
  "moveWorkout_recalculations weeks a = map_sum id snd (moveWorkout_run weeks a)"

subsection \<open>\<open>handleUnitToggle\<close> and the converters (utils.ts)\<close>

datatype Unit = km | miles

definition kmToMiles :: "double \<Rightarrow> double" where
  "kmToMiles x = d_mul x (num 0.621371)"

definition milesToKm :: "double \<Rightarrow> double" where
  "milesToKm x = d_div x (num 0.621371)"

text \<open>
  The callback of \<^verbatim>\<open>runs.map\<close> in \<open>handleUnitToggle\<close>: the mapped run, and the
  \<open>convertedDistance\<close> that the call adds to \<open>newWeeklyTotal\<close>, \<open>None\<close> when the
  callback returns before it adds anything. \<^verbatim>\<open>!run.distance\<close> holds for an absent
  distance and for \<open>0\<close>. \<open>newUnit\<close> is the other unit, so the third branch of the
  source's conversion (\<open>convertedDistance = run.distance\<close>) is never taken.
\<close>

definition convertRun :: "Unit \<Rightarrow> Run \<Rightarrow> Run \<times> double option" where
  "convertRun currentUnit run =
     (let newUnit = (if currentUnit = km then miles else km)
      in case distance run of
           None \<Rightarrow> (run, None)
         | Some d \<Rightarrow>
             if val d = 0 then (run, None)
             else
               (let convertedDistance =
                      (if currentUnit = km \<and> newUnit = miles then kmToMiles d
                       else if currentUnit = miles \<and> newUnit = km then milesToKm d
                       else d)
                in (run\<lparr>distance := Some (d_div (Math_round (d_mul convertedDistance (num 10))) (num 10))\<rparr>,
                    Some convertedDistance)))"

text \<open>
  \<^verbatim>\<open>runs.map(...)\<close> over one bucket, with the running \<open>newWeeklyTotal\<close>. Reading
  \<^verbatim>\<open>run.distance\<close> of a hole throws a \<^verbatim>\<open>TypeError\<close>.
\<close>

fun convertRuns :: "Unit \<Rightarrow> Run option list \<Rightarrow> double \<Rightarrow> error + (Run option list \<times> double)" where
  "convertRuns currentUnit [] newWeeklyTotal = Inr ([], newWeeklyTotal)"
| "convertRuns currentUnit (None # runs) newWeeklyTotal = Inl TypeError"
| "convertRuns currentUnit (Some run # runs) newWeeklyTotal =
     (let (run', converted) = convertRun currentUnit run;
          nextTotal = (case converted of
                         None \<Rightarrow> newWeeklyTotal
                       | Some convertedDistance \<Rightarrow> d_add newWeeklyTotal convertedDistance)
      in case convertRuns currentUnit runs nextTotal of
           Inl e \<Rightarrow> Inl e
         | Inr (runs', lastTotal) \<Rightarrow> Inr (Some run' # runs', lastTotal))"

text \<open>
  \<^verbatim>\<open>Object.entries(week.days).forEach(...)\<close>: the buckets of the days \<open>ds\<close>, in order,
  written into \<open>convertedDays\<close>.
\<close>

fun convertDays ::
  "Unit \<Rightarrow> (Day \<Rightarrow> Run option list) \<Rightarrow> Day list \<Rightarrow> (Day \<Rightarrow> Run option list) \<Rightarrow> double
     \<Rightarrow> error + ((Day \<Rightarrow> Run option list) \<times> double)" where
  "convertDays currentUnit ds [] convertedDays newWeeklyTotal = Inr (convertedDays, newWeeklyTotal)"
| "convertDays currentUnit ds (day # rest) convertedDays newWeeklyTotal =
     (case convertRuns currentUnit (ds day) newWeeklyTotal of
        Inl e \<Rightarrow> Inl e
      | Inr (runs', nextTotal) \<Rightarrow> convertDays currentUnit ds rest (convertedDays(day := runs')) nextTotal)"

definition convertWeek :: "Unit \<Rightarrow> Week \<Rightarrow> error + Week" where
  "convertWeek currentUnit wk =
     (case convertDays currentUnit (days wk) days_list (\<lambda>day. []) (num 0) of
        Inl e \<Rightarrow> Inl e
      | Inr (convertedDays, newWeeklyTotal) \<Rightarrow>
          Inr (wk\<lparr>days := convertedDays, weeklyTotal := Math_round newWeeklyTotal\<rparr>))"

fun convertWeeks :: "Unit \<Rightarrow> Week list \<Rightarrow> error + Week list" where
  "convertWeeks currentUnit [] = Inr []"
| "convertWeeks currentUnit (wk # rest) =
     (case convertWeek currentUnit wk of
        Inl e \<Rightarrow> Inl e
      | Inr wk' \<Rightarrow>
          (case convertWeeks currentUnit rest of
             Inl e \<Rightarrow> Inl e
           | Inr rest' \<Rightarrow> Inr (wk' # rest')))"

text \<open>
  \<open>handleUnitToggle\<close>, with \<^verbatim>\<open>onUnitChange\<close> supplied: the converted plan it hands
  to \<^verbatim>\<open>onUpdatePlan\<close> and \<^verbatim>\<open>onUnitChange\<close>.
\<close>

definition handleUnitToggle :: "Unit \<Rightarrow> Week list \<Rightarrow> error + Week list" where
  "handleUnitToggle currentUnit weeks = convertWeeks currentUnit weeks"

section \<open>Notions used to state the properties\<close>

text \<open>
  The buckets of the source week of a move after line 1252 (the run removed), the
  run that \<^verbatim>\<open>splice\<close> returned, and the buckets after line 1261 (the run inserted
  in the same week).
\<close>

definition afterRemoval :: "Week \<Rightarrow> MoveArgs \<Rightarrow> Day \<Rightarrow> Run option list" where
  "afterRemoval wk a =
     (days wk)(fromDay a := fst (splice_delete1 (days wk (fromDay a)) (fromRunIndex a)))"

definition removedRun :: "Week \<Rightarrow> MoveArgs \<Rightarrow> Run option" where
  "removedRun wk a = first_of (snd (splice_delete1 (days wk (fromDay a)) (fromRunIndex a)))"

definition afterInsertion :: "Week \<Rightarrow> MoveArgs \<Rightarrow> Day \<Rightarrow> Run option list" where
  "afterInsertion wk a =
     (afterRemoval wk a)
       (toDay a := splice_insert (afterRemoval wk a (toDay a)) (toRunIndex a) (removedRun wk a))"

text \<open>The number of workouts of a plan: the entries of all buckets that are runs.\<close>

definition workoutCount :: "Week list \<Rightarrow> nat" where
  "workoutCount weeks = sum_list (map (\<lambda>wk. length (weekRuns wk)) weeks)"

text \<open>Example data: a 5 km easy run, an empty week, and a week with the run on Monday.\<close>

definition easyRun5 :: Run where
  "easyRun5 = \<lparr>run_id = ''0-Mon-Easy-k3x9q1z7b'', run_type = Easy,
     measurementType = Some MDistance, distance = Some (num 5), time = None,
     run_notes = None, nickname = None, description = None\<rparr>"

definition emptyWeek :: "int \<Rightarrow> Week" where
  "emptyWeek n = \<lparr>week = n, startDate = ''2026-01-05'', days = (\<lambda>day. []), weeklyTotal = num 0\<rparr>"

definition mondayWeek :: "int \<Rightarrow> Week" where
  "mondayWeek n = \<lparr>week = n, startDate = ''2026-01-05'',
     days = (\<lambda>day. [])(Mon := [Some easyRun5]), weeklyTotal = num 5\<rparr>"

text \<open>
  \<open>nearestWhole t s\<close>: \<open>t\<close> is the whole number nearest to \<open>s\<close>, a tie going up. A
  week's total is consistent when it is the whole number nearest to the sum of the
  numeric distances of the week.
\<close>

definition nearestWhole :: "real \<Rightarrow> real \<Rightarrow> bool" where
  "nearestWhole t s \<longleftrightarrow> of_int \<lfloor>t\<rfloor> = t \<and> t - 1 / 2 \<le> s \<and> s < t + 1 / 2"



text \<open>More example data: a move within week 0 from Monday to Tuesday, updates that
  make a run a 30 minute run, and updates that set the distance to 8.\<close>

definition sameWeekMove :: MoveArgs where
  "sameWeekMove = \<lparr>fromWeekIndex = 0, fromDay = Mon, fromRunIndex = 0,
                    toWeekIndex = 0, toDay = Tue, toRunIndex = 0\<rparr>"


definition distance8 :: Updates where
  "distance8 = \<lparr>upd_measurementType = None, upd_distance = Some (num 8), upd_time = None,
                 upd_description = None\<rparr>"

text \<open>
  \<open>handleUnitToggle\<close> in closed form: what its callback makes of one bucket entry,
  and the total it has reached after a bucket and after the buckets of some days.
\<close>

definition convertedEntry :: "Unit \<Rightarrow> Run option \<Rightarrow> Run option" where
  "convertedEntry u x = map_option (\<lambda>run. fst (convertRun u run)) x"

definition totalAfterEntry :: "Unit \<Rightarrow> double \<Rightarrow> Run option \<Rightarrow> double" where
  "totalAfterEntry u t x =
     (case x of
        None \<Rightarrow> t
      | Some run \<Rightarrow> (case snd (convertRun u run) of None \<Rightarrow> t | Some c \<Rightarrow> d_add t c))"

definition totalAfterDays :: "Unit \<Rightarrow> (Day \<Rightarrow> Run option list) \<Rightarrow> Day list \<Rightarrow> double \<Rightarrow> double" where
  "totalAfterDays u ds dl t = foldl (\<lambda>t d. foldl (totalAfterEntry u) t (ds d)) t dl"

definition convertedWeek :: "Unit \<Rightarrow> Week \<Rightarrow> Week" where
  "convertedWeek u wk =
     wk\<lparr>days := (\<lambda>d. map (convertedEntry u) (days wk d)),
        weeklyTotal := Math_round (totalAfterDays u (days wk) days_list (num 0))\<rparr>"

definition noHoles :: "Week list \<Rightarrow> bool" where
  "noHoles weeks = list_all (\<lambda>wk. list_all (\<lambda>d. None \<notin> set (days wk d)) days_list) weeks"

text \<open>
  A distance converted from kilometres to miles and back, each time rounded to one
  decimal as \<open>convertRun\<close> does; and a plan converted from kilometres to miles and
  back by two calls of \<open>handleUnitToggle\<close>.
\<close>

definition roundTenth :: "double \<Rightarrow> double" where
  "roundTenth x = d_div (Math_round (d_mul x (num 10))) (num 10)"

definition thereAndBack :: "double \<Rightarrow> double" where
  "thereAndBack x =
     (if val x = 0 then x
      else (let m = roundTenth (kmToMiles x)
            in if val m = 0 then m else roundTenth (milesToKm m)))"

definition convertThereAndBack :: "Week list \<Rightarrow> error + Week list" where
  "convertThereAndBack P =
     (case handleUnitToggle km P of Inl e \<Rightarrow> Inl e | Inr P1 \<Rightarrow> handleUnitToggle miles P1)"

text \<open>
  The sum the specification names: the \<open>distance\<close> of the distance-measured runs. A
  run is distance-measured when its \<open>measurementType\<close> is \<open>distance\<close>, or when it
  is a legacy run with no \<open>measurementType\<close> and a distance.
\<close>

definition distanceMeasured :: "Run \<Rightarrow> bool" where
  "distanceMeasured run \<longleftrightarrow>
     measurementType run = Some MDistance \<or> (measurementType run = None \<and> distance run \<noteq> None)"

definition distanceMeasuredSum :: "Week \<Rightarrow> double" where
  "distanceMeasuredSum wk =
     double_sum (map (\<lambda>d. double_sum (map distance_or_0 (filter distanceMeasured (filter_Boolean (days wk d)))))
                  days_list)"

text \<open>
  More example data. A week with one Monday run of a given distance; a week with
  runs of 4, 8 and 8 km; a week with a 5 km run on Monday and runs of 0.7, 1.4 and
  1.4 km on Tuesday, whose total 9 is the one \<open>recalculateWeeklyTotal\<close> gives it; a
  week as an imported file can hold it, with a 40 minute Tuesday run that also
  carries a distance of 5; a week whose stored total 40 is not the one of its one
  5 km run; a 30 minute tempo run on a Thursday with updates that make it a 6 km
  run; a week with two Monday runs; and a 12 km long run to add.
\<close>

definition shortRunWeek :: "double \<Rightarrow> Week" where
  "shortRunWeek x = \<lparr>week = 1, startDate = ''2026-01-05'',
     days = (\<lambda>day. [])(Mon := [Some (easyRun5\<lparr>distance := Some x\<rparr>)]),
     weeklyTotal = Math_round x\<rparr>"

definition threeRunWeek :: Week where
  "threeRunWeek = \<lparr>week = 1, startDate = ''2026-01-05'',
     days = (\<lambda>day. [])
       (Mon := [Some (easyRun5\<lparr>distance := Some (num 4)\<rparr>)],
        Wed := [Some (easyRun5\<lparr>distance := Some (num 8)\<rparr>)],
        Sat := [Some (easyRun5\<lparr>distance := Some (num 8)\<rparr>)]),
     weeklyTotal = num 20\<rparr>"




definition staleWeek :: Week where
  "staleWeek = \<lparr>week = 1, startDate = ''2026-01-05'',
     days = (\<lambda>day. [])(Mon := [Some easyRun5]), weeklyTotal = num 40\<rparr>"



definition toDistance6 :: Updates where
  "toDistance6 = \<lparr>upd_measurementType = Some MDistance, upd_distance = Some (num 6), upd_time = None,
     upd_description = None\<rparr>"

definition twoRunWeek :: Week where
  "twoRunWeek = \<lparr>week = 1, startDate = ''2026-01-05'',
     days = (\<lambda>day. [])(Mon := [Some easyRun5, Some (easyRun5\<lparr>run_id := ''0-Mon-Long-z1x2c3v4b'', run_type := Long, distance := Some (num 12)\<rparr>)]),
     weeklyTotal = num 17\<rparr>"

definition longRun12 :: Workout where
  "longRun12 = \<lparr>w_type = Long, w_nickname = None, w_measurementType = None,
     w_distance = Some (num 12), w_time = None, w_description = None\<rparr>"

section \<open>Import (InputForm.tsx, planSchema.ts, useTrainingSession.ts)\<close>

subsection \<open>JSON values\<close>

text \<open>
  A value as \<^verbatim>\<open>JSON.parse\<close> returns it, and \<^verbatim>\<open>undefined\<close>, which reading a property
  that is not there gives. The entries of an object are in the order in which
  \<^verbatim>\<open>Object.keys\<close> lists them, each key once.
\<close>

datatype jsval =
    JUndefined
  | JNull
  | JBool bool
  | JNum double
  | JStr string
  | JArr "jsval list"
  | JObj "(string \<times> jsval) list"

text \<open>A value in a condition, \<^verbatim>\<open>x || y\<close>, and the test for \<^verbatim>\<open>null\<close> and \<^verbatim>\<open>undefined\<close>.\<close>

definition truthy :: "jsval \<Rightarrow> bool" where
  "truthy v =
     (case v of
        JUndefined \<Rightarrow> False
      | JNull \<Rightarrow> False
      | JBool b \<Rightarrow> b
      | JNum x \<Rightarrow> val x \<noteq> 0
      | JStr s \<Rightarrow> s \<noteq> []
      | JArr xs \<Rightarrow> True
      | JObj entries \<Rightarrow> True)"

definition js_or :: "jsval \<Rightarrow> jsval \<Rightarrow> jsval" where
  "js_or x y = (if truthy x then x else y)"

definition nullish :: "jsval \<Rightarrow> bool" where
  "nullish v = (case v of JUndefined \<Rightarrow> True | JNull \<Rightarrow> True | _ \<Rightarrow> False)"

text \<open>The decimal text of an array index.\<close>

fun show_nat :: "nat \<Rightarrow> string" where
  "show_nat n =
     (if n < 10 then [char_of (48 + n)] else show_nat (n div 10) @ [char_of (48 + n mod 10)])"

declare show_nat.simps [simp del]

text \<open>
  \<^verbatim>\<open>v[key]\<close> and \<^verbatim>\<open>v.key\<close> for a \<open>v\<close> that is neither \<^verbatim>\<open>null\<close> nor \<^verbatim>\<open>undefined\<close>: an
  own property of an object, an element or the length of an array, a character or
  the length of a string, and \<^verbatim>\<open>undefined\<close> otherwise. \<^verbatim>\<open>v?.key\<close> is \<^verbatim>\<open>undefined\<close>
  also when \<open>v\<close> is \<^verbatim>\<open>null\<close> or \<^verbatim>\<open>undefined\<close>. The code reads no inherited property.
\<close>

definition js_get :: "jsval \<Rightarrow> string \<Rightarrow> jsval" where
  "js_get v key =
     (case v of
        JObj entries \<Rightarrow> (case map_of entries key of Some x \<Rightarrow> x | None \<Rightarrow> JUndefined)
      | JArr xs \<Rightarrow>
          (if key = ''length'' then JNum (num (of_nat (length xs)))
           else (case find (\<lambda>i. show_nat i = key) [0..<length xs] of
                   Some i \<Rightarrow> xs ! i
                 | None \<Rightarrow> JUndefined))
      | JStr s \<Rightarrow>
          (if key = ''length'' then JNum (num (of_nat (length s)))
           else (case find (\<lambda>i. show_nat i = key) [0..<length s] of
                   Some i \<Rightarrow> JStr [s ! i]
                 | None \<Rightarrow> JUndefined))
      | _ \<Rightarrow> JUndefined)"

definition js_get_opt :: "jsval \<Rightarrow> string \<Rightarrow> jsval" where
  "js_get_opt v key = (if nullish v then JUndefined else js_get v key)"

text \<open>\<^verbatim>\<open>Object.keys(v)\<close> for a \<open>v\<close> that is neither \<^verbatim>\<open>null\<close> nor \<^verbatim>\<open>undefined\<close>.\<close>

definition Object_keys :: "jsval \<Rightarrow> string list" where
  "Object_keys v =
     (case v of
        JObj entries \<Rightarrow> map fst entries
      | JArr xs \<Rightarrow> map show_nat [0..<length xs]
      | JStr s \<Rightarrow> map show_nat [0..<length s]
      | _ \<Rightarrow> [])"

subsection \<open>The schema of planSchema.ts\<close>

text \<open>
  The schemas are built from the combinators of the validation library \<^verbatim>\<open>zod\<close>. A
  schema is modelled by the set of values that its \<^verbatim>\<open>parse\<close> accepts: whether
  \<^verbatim>\<open>parse\<close> throws is all that \<open>validateSchema\<close> uses of it beyond the texts of the
  issues, which belong to the library and are not modelled. The transformations of
  the schemas change the value \<^verbatim>\<open>parse\<close> returns, which \<open>validateSchema\<close> drops, and
  are left out.

  \<^item> \<^verbatim>\<open>z.string()\<close>, \<^verbatim>\<open>z.number()\<close>, \<^verbatim>\<open>z.null()\<close>: a string, a number, \<^verbatim>\<open>null\<close>.
  \<^item> \<^verbatim>\<open>s.optional()\<close> and \<^verbatim>\<open>s.default(d)\<close>: \<^verbatim>\<open>undefined\<close>, or a value of \<open>s\<close>.
  \<^item> \<^verbatim>\<open>z.enum(options)\<close>: one of the strings.
  \<^item> \<^verbatim>\<open>z.array(s)\<close>: an array of values of \<open>s\<close>.
  \<^item> \<^verbatim>\<open>z.union([s, t])\<close>: a value of \<open>s\<close> or of \<open>t\<close>.
  \<^item> \<^verbatim>\<open>z.object(shape)\<close>: an object, not an array, whose property for every key of
    the shape is a value of the schema of that key; other keys are ignored.
  \<^item> \<^verbatim>\<open>z.record(z.enum(keys), s)\<close>: an object, not an array, whose keys are all among
    \<open>keys\<close> and whose values are values of \<open>s\<close>. Version 4 of the library also
    wants every one of \<open>keys\<close> to be there, version 3 does not; \<open>exhaustive\<close> says
    which of the two is meant.
\<close>

definition z_string :: "jsval \<Rightarrow> bool" where
  "z_string v = (case v of JStr s \<Rightarrow> True | _ \<Rightarrow> False)"

definition z_number :: "jsval \<Rightarrow> bool" where
  "z_number v = (case v of JNum x \<Rightarrow> True | _ \<Rightarrow> False)"

definition z_null :: "jsval \<Rightarrow> bool" where
  "z_null v = (case v of JNull \<Rightarrow> True | _ \<Rightarrow> False)"

definition z_optional :: "(jsval \<Rightarrow> bool) \<Rightarrow> jsval \<Rightarrow> bool" where
  "z_optional s v = (case v of JUndefined \<Rightarrow> True | _ \<Rightarrow> s v)"

definition z_enum :: "string list \<Rightarrow> jsval \<Rightarrow> bool" where
  "z_enum options v = (case v of JStr s \<Rightarrow> s \<in> set options | _ \<Rightarrow> False)"

definition z_array :: "(jsval \<Rightarrow> bool) \<Rightarrow> jsval \<Rightarrow> bool" where
  "z_array s v = (case v of JArr xs \<Rightarrow> list_all s xs | _ \<Rightarrow> False)"

definition z_union :: "(jsval \<Rightarrow> bool) \<Rightarrow> (jsval \<Rightarrow> bool) \<Rightarrow> jsval \<Rightarrow> bool" where
  "z_union s t v = (s v \<or> t v)"

definition z_object :: "(string \<times> (jsval \<Rightarrow> bool)) list \<Rightarrow> jsval \<Rightarrow> bool" where
  "z_object shape v =
     (case v of
        JObj entries \<Rightarrow> list_all (\<lambda>(key, s). s (js_get v key)) shape
      | _ \<Rightarrow> False)"

definition z_record :: "bool \<Rightarrow> string list \<Rightarrow> (jsval \<Rightarrow> bool) \<Rightarrow> jsval \<Rightarrow> bool" where
  "z_record exhaustive keys s v =
     (case v of
        JObj entries \<Rightarrow>
          list_all (\<lambda>(key, x). key \<in> set keys \<and> s x) entries
          \<and> (if exhaustive then list_all (\<lambda>key. s (js_get v key)) keys else True)
      | _ \<Rightarrow> False)"

definition runTypeEnum :: "string list" where
  "runTypeEnum = [''Rest'', ''Easy'', ''Long'', ''Interval'', ''Tempo'', ''Race'', ''Strength'']"

text \<open>
  \<open>runSchema\<close>: the object schema and its \<^verbatim>\<open>refine\<close>. After the object schema has
  accepted the value, its \<open>distance\<close> and \<open>time\<close> are numbers or \<^verbatim>\<open>undefined\<close>.
\<close>

definition runSchema :: "jsval \<Rightarrow> bool" where
  "runSchema v \<longleftrightarrow>
     z_object
       [(''id'', z_optional z_string),
        (''type'', z_enum runTypeEnum),
        (''measurementType'', z_optional (z_enum [''distance'', ''time''])),
        (''distance'', z_optional z_number),
        (''time'', z_optional z_number),
        (''notes'', z_optional z_string),
        (''nickname'', z_optional z_string),
        (''description'', z_optional z_string)] v
     \<and> (case js_get v ''measurementType'' of
          JStr m \<Rightarrow>
            if m = ''distance'' then z_number (js_get v ''distance'')
            else if m = ''time'' then z_number (js_get v ''time'')
            else True
        | _ \<Rightarrow> True)"

definition dayKeySchema :: "string list" where
  "dayKeySchema = [''Mon'', ''Tue'', ''Wed'', ''Thu'', ''Fri'', ''Sat'', ''Sun'']"

definition weekSchema :: "bool \<Rightarrow> jsval \<Rightarrow> bool" where
  "weekSchema exhaustive =
     z_object
       [(''week'', z_number),
        (''startDate'', z_string),
        (''days'', z_record exhaustive dayKeySchema (z_array (z_union runSchema z_null))),
        (''weeklyTotal'', z_number)]"

definition planSettingsSchema :: "jsval \<Rightarrow> bool" where
  "planSettingsSchema =
     z_object
       [(''todayDate'', z_string),
        (''raceDate'', z_string),
        (''raceDistance'', z_string),
        (''customRaceDistance'', z_optional z_number),
        (''unit'', z_optional (z_enum [''km'', ''miles''])),
        (''trainingDays'',
           z_array (z_object
             [(''day'', z_string),
              (''workouts'',
                 z_array (z_object
                   [(''runType'', z_string),
                    (''nickname'', z_optional z_string)]))]))]"

definition trainingPlanSchema :: "bool \<Rightarrow> jsval \<Rightarrow> bool" where
  "trainingPlanSchema exhaustive =
     z_object
       [(''version'', z_string),
        (''createdAt'', z_string),
        (''updatedAt'', z_string),
        (''source'', z_enum [''generated'', ''imported'', ''edited'']),
        (''settings'', planSettingsSchema),
        (''plan'', z_object [(''weeks'', z_array (weekSchema exhaustive))])]"

text \<open>
  \<open>validateSchema\<close>: the field \<open>valid\<close> of its result. \<^verbatim>\<open>!parsed.version\<close> holds for
  the empty string.
\<close>

definition validateSchema :: "bool \<Rightarrow> jsval \<Rightarrow> bool" where
  "validateSchema exhaustive json \<longleftrightarrow>
     trainingPlanSchema exhaustive json \<and> truthy (js_get json ''version'')"

subsection \<open>\<open>importPlanSchema\<close>\<close>

text \<open>
  The session of \<open>useTrainingSession\<close>: the generation parameters, the plan and the
  schema wrapper, each as it was stored, and the step.
\<close>

record FormValues =
  fv_todayDate :: jsval
  fv_raceDate :: jsval
  fv_raceDistance :: jsval
  fv_customRaceDistance :: jsval
  fv_unit :: jsval
  fv_trainingDays :: "(jsval \<times> (jsval \<times> jsval) list) list"

datatype TrainingStep = StepConfigure | StepEdit | StepExport

record Session =
  formValues :: "FormValues option"
  sessionPlan :: "jsval option"
  sessionSchema :: "jsval option"
  step :: TrainingStep

text \<open>
  The validation of \<^verbatim>\<open>incoming.plan\<close>. An entry of \<open>validationErrors\<close> is kept as the
  values that its template string is filled with: \<^verbatim>\<open>week.week\<close> and the invalid
  keys; \<^verbatim>\<open>week.week\<close> and the day key; \<^verbatim>\<open>week.week\<close>, the day key, \<open>runIndex + 1\<close> and
  \<^verbatim>\<open>run.type\<close>. The exception that ends the validation carries all of them
  (\<^verbatim>\<open>validationErrors.join("; ")\<close>). A week that is \<^verbatim>\<open>null\<close> makes \<^verbatim>\<open>week.days\<close> throw
  a \<^verbatim>\<open>TypeError\<close>.
\<close>

datatype plan_error =
    InvalidDayKeys jsval "string list"
  | RunsNotAnArray jsval string
  | InvalidRunType jsval string nat jsval

datatype thrown = Thrown error | InvalidPlanStructure "plan_error list"

definition validDays :: "string list" where
  "validDays = [''Mon'', ''Tue'', ''Wed'', ''Thu'', ''Fri'', ''Sat'', ''Sun'']"

definition validRunTypes :: "string list" where
  "validRunTypes = [''Rest'', ''Easy'', ''Long'', ''Interval'', ''Tempo'', ''Race'', ''Strength'']"

definition dayKeys :: "jsval \<Rightarrow> string list" where
  "dayKeys wk = Object_keys (js_or (js_get wk ''days'') (JObj []))"

definition invalidDayKeys :: "jsval \<Rightarrow> string list" where
  "invalidDayKeys wk = filter (\<lambda>key. key \<notin> set validDays) (dayKeys wk)"

text \<open>\<^verbatim>\<open>validRunTypes.includes(run.type)\<close>.\<close>

definition validRunType :: "jsval \<Rightarrow> bool" where
  "validRunType t = (case t of JStr s \<Rightarrow> s \<in> set validRunTypes | _ \<Rightarrow> False)"

fun runErrors :: "jsval \<Rightarrow> string \<Rightarrow> nat \<Rightarrow> jsval list \<Rightarrow> plan_error list" where
  "runErrors wk dayKey runIndex [] = []"
| "runErrors wk dayKey runIndex (run # runs) =
     (if truthy run \<and> \<not> validRunType (js_get run ''type'')
      then [InvalidRunType (js_get wk ''week'') dayKey (runIndex + 1) (js_get run ''type'')]
      else [])
       @ runErrors wk dayKey (Suc runIndex) runs"

definition dayErrors :: "jsval \<Rightarrow> string \<Rightarrow> plan_error list" where
  "dayErrors wk dayKey =
     (case js_or (js_get (js_get wk ''days'') dayKey) (JArr []) of
        JArr runs \<Rightarrow> runErrors wk dayKey 0 runs
      | _ \<Rightarrow> [RunsNotAnArray (js_get wk ''week'') dayKey])"

definition weekErrors :: "jsval \<Rightarrow> plan_error list" where
  "weekErrors wk =
     (if invalidDayKeys wk \<noteq> [] then [InvalidDayKeys (js_get wk ''week'') (invalidDayKeys wk)] else [])
       @ concat (map (dayErrors wk) (dayKeys wk))"

fun weeksErrors :: "jsval list \<Rightarrow> plan_error list \<Rightarrow> error + plan_error list" where
  "weeksErrors [] validationErrors = Inr validationErrors"
| "weeksErrors (wk # weeks) validationErrors =
     (if nullish wk then Inl TypeError
      else weeksErrors weeks (validationErrors @ weekErrors wk))"

text \<open>The block \<^verbatim>\<open>if (incoming?.plan) { ... }\<close>, for a plan that is there.\<close>

definition validatePlan :: "jsval \<Rightarrow> thrown option" where
  "validatePlan p =
     (let weeks = js_get p ''weeks''
      in if \<not> truthy weeks
         then Some (Thrown (Error ''Invalid plan structure: weeks array is missing''))
         else (case weeks of
                 JArr ws \<Rightarrow>
                   (case weeksErrors ws [] of
                      Inl e \<Rightarrow> Some (Thrown e)
                    | Inr validationErrors \<Rightarrow>
                        if validationErrors \<noteq> []
                        then Some (InvalidPlanStructure validationErrors)
                        else None)
               | _ \<Rightarrow> Some (Thrown (Error ''Invalid plan structure: weeks must be an array''))))"

text \<open>
  The form values built from \<^verbatim>\<open>incoming.settings\<close>: \<^verbatim>\<open>w?.runType || "Easy"\<close> and
  \<^verbatim>\<open>w?.nickname\<close> for a workout, and the \<^verbatim>\<open>map\<close> over \<^verbatim>\<open>trainingDaysArray\<close> with
  its two \<^verbatim>\<open>throw\<close>s.
\<close>

definition formWorkout :: "jsval \<Rightarrow> jsval \<times> jsval" where
  "formWorkout w = (js_or (js_get_opt w ''runType'') (JStr ''Easy''), js_get_opt w ''nickname'')"

fun formTrainingDays :: "jsval list \<Rightarrow> error + (jsval \<times> (jsval \<times> jsval) list) list" where
  "formTrainingDays [] = Inr []"
| "formTrainingDays (d # ds) =
     (if \<not> truthy d then Inl (Error ''Invalid training day: day is undefined'')
      else (case js_get d ''workouts'' of
              JArr workoutsArray \<Rightarrow>
                (case formTrainingDays ds of
                   Inl e \<Rightarrow> Inl e
                 | Inr rest \<Rightarrow>
                     Inr ((js_or (js_get d ''day'') (JStr ''''), map formWorkout workoutsArray) # rest))
            | _ \<Rightarrow> Inl (Error ''Invalid training day: workouts must be an array'')))"

text \<open>
  \<open>importPlanSchema\<close>. The result is the session after the calls of
  \<^verbatim>\<open>setSchema\<close>, \<^verbatim>\<open>setFormValues\<close>, \<^verbatim>\<open>setPlan\<close> and \<^verbatim>\<open>setStep\<close> that the handler
  made, and the exception it ended with, if any: an update made before a \<^verbatim>\<open>throw\<close>
  stays made.
\<close>

definition importPlanSchema :: "Session \<Rightarrow> jsval \<Rightarrow> Session \<times> thrown option" where
  "importPlanSchema s incoming =
     (let p = js_get_opt incoming ''plan''
      in case (if truthy p then validatePlan p else None) of
           Some e \<Rightarrow> (s, Some e)
         | None \<Rightarrow>
             (let s1 = s\<lparr>sessionSchema := Some incoming\<rparr>;
                  incomingSettings = js_get_opt incoming ''settings''
              in if \<not> truthy incomingSettings then (s1, None)
                 else
                   (case js_get incomingSettings ''trainingDays'' of
                      JArr trainingDaysArray \<Rightarrow>
                        (case formTrainingDays trainingDaysArray of
                           Inl e \<Rightarrow> (s1, Some (Thrown e))
                         | Inr days' \<Rightarrow>
                             (let nextFormValues =
                                    \<lparr>fv_todayDate = js_or (js_get incomingSettings ''todayDate'') (JStr ''''),
                                     fv_raceDate = js_or (js_get incomingSettings ''raceDate'') (JStr ''''),
                                     fv_raceDistance = js_or (js_get incomingSettings ''raceDistance'') (JStr ''''),
                                     fv_customRaceDistance = js_get incomingSettings ''customRaceDistance'',
                                     fv_unit = js_or (js_get incomingSettings ''unit'') (JStr ''km''),
                                     fv_trainingDays = days'\<rparr>;
                                  s2 = s1\<lparr>formValues := Some nextFormValues\<rparr>
                              in if truthy p
                                 then (s2\<lparr>sessionPlan := Some p,
                                           step := (case js_get p ''weeks'' of
                                                      JArr (w # ws) \<Rightarrow> StepEdit
                                                    | _ \<Rightarrow> step s2)\<rparr>, None)
                                 else (s2\<lparr>sessionPlan := None\<rparr>, None)))
                    | _ \<Rightarrow>
                        (s1, Some (Thrown (Error ''Invalid settings: trainingDays must be an array''))))))"

subsection \<open>\<open>handleImportJSON\<close>\<close>

text \<open>
  \<open>handleImportJSON\<close> of the input form, from the result of \<^verbatim>\<open>JSON.parse\<close> on:
  \<open>None\<close> when \<^verbatim>\<open>JSON.parse\<close> threw. The result is the session, and the import error
  the form shows afterwards: none after a successful import, the error of
  \<open>validateSchema\<close>, or the message of the exception caught. \<^verbatim>\<open>onImport\<close> of the page
  is \<open>importPlanSchema\<close> as well.
\<close>

datatype import_error = MalformedJson | SchemaError | Caught thrown

definition handleImportJSON :: "bool \<Rightarrow> Session \<Rightarrow> jsval option \<Rightarrow> Session \<times> import_error option" where
  "handleImportJSON exhaustive s parsed =
     (case parsed of
        None \<Rightarrow> (s, Some MalformedJson)
      | Some json \<Rightarrow>
          if \<not> validateSchema exhaustive json then (s, Some SchemaError)
          else (case importPlanSchema s json of
                  (s', Some e) \<Rightarrow> (s', Some (Caught e))
                | (s', None) \<Rightarrow> (s', None)))"

text \<open>
  What the specification calls a payload that fails structural validation: a week
  has a day key outside the seven, a run has a type outside the closed set, or the
  weeks, the settings or the plan are missing.
\<close>

definition weeksOf :: "jsval \<Rightarrow> jsval list" where
  "weeksOf json = (case js_get (js_get_opt json ''plan'') ''weeks'' of JArr ws \<Rightarrow> ws | _ \<Rightarrow> [])"

definition hasInvalidDayKey :: "jsval \<Rightarrow> bool" where
  "hasInvalidDayKey json = list_ex (\<lambda>wk. invalidDayKeys wk \<noteq> []) (weeksOf json)"

definition invalidRunIn :: "jsval \<Rightarrow> bool" where
  "invalidRunIn bucket =
     (case bucket of
        JArr runs \<Rightarrow> list_ex (\<lambda>run. truthy run \<and> \<not> validRunType (js_get run ''type'')) runs
      | _ \<Rightarrow> False)"

definition hasInvalidRunType :: "jsval \<Rightarrow> bool" where
  "hasInvalidRunType json =
     list_ex (\<lambda>wk. list_ex (\<lambda>key. invalidRunIn (js_get (js_get wk ''days'') key)) (dayKeys wk))
       (weeksOf json)"

definition missingPlan :: "jsval \<Rightarrow> bool" where
  "missingPlan json = (\<not> truthy (js_get_opt json ''plan''))"

definition missingSettings :: "jsval \<Rightarrow> bool" where
  "missingSettings json = (\<not> truthy (js_get_opt json ''settings''))"

definition missingWeeks :: "jsval \<Rightarrow> bool" where
  "missingWeeks json = (\<not> truthy (js_get (js_get_opt json ''plan'') ''weeks''))"

definition failsStructuralValidation :: "jsval \<Rightarrow> bool" where
  "failsStructuralValidation json \<longleftrightarrow>
     hasInvalidDayKey json \<or> hasInvalidRunType json
     \<or> missingWeeks json \<or> missingSettings json \<or> missingPlan json"

text \<open>
  Example data: a wrapper with the day key \<open>Weds\<close>, one with a run of type \<open>Jog\<close>,
  one without settings, a well-formed one, and a session with a plan.
\<close>

definition exampleSettings :: jsval where
  "exampleSettings = JObj
     [(''todayDate'', JStr ''2026-01-05''), (''raceDate'', JStr ''2026-04-12''),
      (''raceDistance'', JStr ''10k''), (''unit'', JStr ''km''),
      (''trainingDays'', JArr [JObj [(''day'', JStr ''Tue''),
          (''workouts'', JArr [JObj [(''runType'', JStr ''Easy'')]])]])]"

definition exampleRun :: "string \<Rightarrow> jsval" where
  "exampleRun t = JObj [(''id'', JStr ''0-Mon-Easy-k3x9q1z7b''), (''type'', JStr t),
     (''measurementType'', JStr ''distance''), (''distance'', JNum (num 5))]"

definition exampleWeek :: "(string \<times> jsval) list \<Rightarrow> jsval" where
  "exampleWeek ds = JObj [(''week'', JNum (num 1)), (''startDate'', JStr ''2026-01-05''),
     (''days'', JObj ds), (''weeklyTotal'', JNum (num 5))]"

definition sevenDays :: "jsval \<Rightarrow> (string \<times> jsval) list" where
  "sevenDays monday = [(''Mon'', monday), (''Tue'', JArr []), (''Wed'', JArr []), (''Thu'', JArr []),
     (''Fri'', JArr []), (''Sat'', JArr []), (''Sun'', JArr [])]"

definition exampleWrapper :: "(string \<times> jsval) list \<Rightarrow> jsval" where
  "exampleWrapper rest = JObj
     ([(''version'', JStr ''1.0.0''), (''createdAt'', JStr ''2026-01-05T08:00:00.000Z''),
       (''updatedAt'', JStr ''2026-01-05T08:00:00.000Z''), (''source'', JStr ''edited'')] @ rest)"

definition goodPayload :: jsval where
  "goodPayload = exampleWrapper
     [(''settings'', exampleSettings),
      (''plan'', JObj [(''weeks'', JArr [exampleWeek (sevenDays (JArr [exampleRun ''Easy'']))])])]"

definition wedsPayload :: jsval where
  "wedsPayload = exampleWrapper
     [(''settings'', exampleSettings),
      (''plan'', JObj [(''weeks'', JArr [exampleWeek (sevenDays (JArr [exampleRun ''Easy'']) @ [(''Weds'', JArr [])])])])]"

definition jogPayload :: jsval where
  "jogPayload = exampleWrapper
     [(''settings'', exampleSettings),
      (''plan'', JObj [(''weeks'', JArr [exampleWeek (sevenDays (JArr [exampleRun ''Jog'']))])])]"

definition noSettingsPayload :: jsval where
  "noSettingsPayload = exampleWrapper
     [(''plan'', JObj [(''weeks'', JArr [exampleWeek (sevenDays (JArr [exampleRun ''Easy'']))])])]"

definition noPlanPayload :: jsval where
  "noPlanPayload = exampleWrapper [(''settings'', exampleSettings)]"

definition editSession :: Session where
  "editSession = \<lparr>formValues = None,
     sessionPlan = Some (JObj [(''weeks'', JArr [exampleWeek (sevenDays (JArr []))])]),
     sessionSchema = None, step = StepEdit\<rparr>"

section \<open>Properties of the doubles\<close>

lemma two_powi_pos [simp]: "0 < (2::real) powi e"
  by (rule zero_less_power_int) simp

lemma two_powi_Suc: "(2::real) powi (e + 1) = 2 * 2 powi e"
  by (simp add: power_int_add)

lemma two_powi_less_iff: "(2::real) powi a < 2 powi b \<longleftrightarrow> a < b"
proof
  assume l: "(2::real) powi a < 2 powi b"
  show "a < b"
  proof (rule ccontr)
    assume "\<not> a < b"
    then have "b \<le> a" by simp
    then have "(2::real) powi b \<le> 2 powi a" by (rule power_int_increasing) simp
    with l show False by simp
  qed
next
  assume "a < b"
  then show "(2::real) powi a < 2 powi b" by (rule power_int_strict_increasing) simp
qed

lemma two_powi_le_iff: "(2::real) powi a \<le> 2 powi b \<longleftrightarrow> a \<le> b"
  using two_powi_less_iff [of b a] by auto

lemma ex_up_bounds:
  "1 \<le> x \<longrightarrow> 0 \<le> ex_up x \<and> 2 powi ex_up x \<le> x \<and> x < 2 powi (ex_up x + 1)"
proof (induction x rule: ex_up.induct)
  case (1 x)
  show ?case
  proof (cases "2 \<le> x")
    case True
    then have "1 \<le> x / 2" by simp
    with 1 [OF True]
    have ih: "0 \<le> ex_up (x / 2)" "2 powi ex_up (x / 2) \<le> x / 2" "x / 2 < 2 powi (ex_up (x / 2) + 1)"
      by simp_all
    have e: "ex_up x = ex_up (x / 2) + 1" using True by (subst ex_up.simps) simp
    have s1: "(2::real) powi (ex_up (x / 2) + 1) = 2 * 2 powi ex_up (x / 2)"
      by (rule two_powi_Suc)
    have s2: "(2::real) powi (ex_up (x / 2) + 1 + 1) = 2 * 2 powi (ex_up (x / 2) + 1)"
      by (rule two_powi_Suc)
    have "0 \<le> ex_up (x / 2) + 1" using ih(1) by simp
    moreover have "2 powi (ex_up (x / 2) + 1) \<le> x" using ih(2) s1 by linarith
    moreover have "x < 2 powi (ex_up (x / 2) + 1 + 1)" using ih(3) s1 s2 by linarith
    ultimately show ?thesis unfolding e by blast
  next
    case False
    then have "ex_up x = 0" by (subst ex_up.simps) simp
    with False show ?thesis by simp
  qed
qed

lemma ex_down_bounds:
  "0 < x \<and> x < 1 \<longrightarrow> ex_down x < 0 \<and> 2 powi ex_down x \<le> x \<and> x < 2 powi (ex_down x + 1)"
proof (induction x rule: ex_down.induct)
  case (1 x)
  show ?case
  proof (intro impI)
    assume a: "0 < x \<and> x < 1"
    have e: "ex_down x = ex_down (2 * x) - 1" using a by (subst ex_down.simps) simp
    show "ex_down x < 0 \<and> 2 powi ex_down x \<le> x \<and> x < 2 powi (ex_down x + 1)"
    proof (cases "2 * x < 1")
      case True
      with 1 [OF a] a
      have ih: "ex_down (2 * x) < 0" "2 powi ex_down (2 * x) \<le> 2 * x"
        "2 * x < 2 powi (ex_down (2 * x) + 1)"
        by simp_all
      have "(2::real) powi (ex_down (2 * x) - 1 + 1) = 2 * 2 powi (ex_down (2 * x) - 1)"
        by (rule two_powi_Suc)
      then have h: "(2::real) powi (ex_down (2 * x) - 1 + 1) = 2 powi ex_down (2 * x)"
        and h2: "2 * (2::real) powi (ex_down (2 * x) - 1) = 2 powi ex_down (2 * x)" by simp_all
      have s1: "(2::real) powi (ex_down (2 * x) + 1) = 2 * 2 powi ex_down (2 * x)"
        by (rule two_powi_Suc)
      have "ex_down (2 * x) - 1 < 0" using ih(1) by simp
      moreover have "2 powi (ex_down (2 * x) - 1) \<le> x" using ih(2) h2 by linarith
      moreover have "x < 2 powi (ex_down (2 * x) - 1 + 1)" using ih(3) s1 h by linarith
      ultimately show ?thesis unfolding e by blast
    next
      case False
      then have "ex_down (2 * x) = 0" by (subst ex_down.simps) simp
      with False a show ?thesis unfolding e by simp
    qed
  qed
qed

lemma expo_bounds:
  assumes "0 < x"
  shows "2 powi expo x \<le> x" and "x < 2 powi (expo x + 1)"
  using assms ex_up_bounds [of x] ex_down_bounds [of x] by (auto simp: expo_def)

lemma expo_less: "0 < x \<Longrightarrow> x < 2 powi k \<Longrightarrow> expo x < k"
  using expo_bounds(1) [of x] two_powi_less_iff [of "expo x" k] by simp

lemma expo_ge: "0 < x \<Longrightarrow> 2 powi k \<le> x \<Longrightarrow> k \<le> expo x"
  using expo_bounds(2) [of x] two_powi_less_iff [of k "expo x + 1"] by simp

lemma expo_unique: "0 < x \<Longrightarrow> 2 powi k \<le> x \<Longrightarrow> x < 2 powi (k + 1) \<Longrightarrow> expo x = k"
  using expo_less [of x "k + 1"] expo_ge [of x k] by simp

lemma rhe_of_int [simp]: "rhe (of_int n) = n"
  by (simp add: rhe_def)

lemma rhe_error: "\<bar>of_int (rhe y) - y\<bar> \<le> 1 / 2"
  unfolding rhe_def Let_def by (simp; linarith)

lemma rhe_le: "y \<le> of_int m \<Longrightarrow> rhe y \<le> m"
proof -
  assume a: "y \<le> of_int m"
  show ?thesis
  proof (cases "y = of_int m")
    case True then show ?thesis by simp
  next
    case False
    with a have "y < of_int m" by simp
    then have "\<lfloor>y\<rfloor> < m" by linarith
    then show ?thesis unfolding rhe_def Let_def by (simp; linarith)
  qed
qed

lemma rhe_ge: "of_int m \<le> y \<Longrightarrow> m \<le> rhe y"
proof -
  assume "of_int m \<le> y"
  then have "m \<le> \<lfloor>y\<rfloor>" by linarith
  then show ?thesis unfolding rhe_def Let_def by (simp; linarith)
qed


lemma quantum_pos [simp]: "0 < quantum x"
  by (simp add: quantum_def)

lemma quantum_nonneg [simp]: "0 \<le> quantum x"
  using quantum_pos [of x] by linarith

lemma quantum_neq_0 [simp]: "quantum x \<noteq> 0"
  using quantum_pos [of x] by linarith

lemma abs_quantum [simp]: "\<bar>quantum x\<bar> = quantum x"
  by simp

lemma fl_0 [simp]: "fl 0 = 0"
  by (simp add: fl_def)

lemma fl_exact: "x / quantum x = of_int m \<Longrightarrow> fl x = x"
proof -
  assume a: "x / quantum x = of_int m"
  have "quantum x * (x / quantum x) = x" using quantum_pos [of x] by simp
  with a show ?thesis by (simp add: fl_def)
qed

lemma fl_error: "\<bar>fl x - x\<bar> \<le> quantum x / 2"
proof (cases "x = 0")
  case True
  then show ?thesis using quantum_pos [of 0] by simp
next
  case False
  define q where "q = quantum x"
  have q: "0 < q" by (simp add: q_def)
  have "fl x - x = q * (of_int (rhe (x / q)) - x / q)"
    using False q by (simp add: fl_def q_def [symmetric] algebra_simps)
  then have "\<bar>fl x - x\<bar> = q * \<bar>of_int (rhe (x / q)) - x / q\<bar>"
    using q by (simp add: abs_mult)
  also have "\<dots> \<le> q * (1 / 2)"
    using rhe_error [of "x / q"] q by (intro mult_left_mono) simp_all
  finally show ?thesis by (simp add: q_def)
qed

lemma quantum_scale: "quantum x * 2 ^ 53 = 2 powi (bexp x + 1)"
proof -
  have "(2::real) powi ((bexp x - 52) + 53) = 2 powi (bexp x - 52) * 2 powi 53"
    by (rule power_int_add) simp
  moreover have "bexp x - 52 + 53 = bexp x + 1" by simp
  ultimately show ?thesis by (simp add: quantum_def)
qed

lemma abs_less_scale:
  assumes "x \<noteq> 0"
  shows "\<bar>x\<bar> < quantum x * 2 ^ 53"
proof -
  have "\<bar>x\<bar> < 2 powi (expo \<bar>x\<bar> + 1)" using assms by (intro expo_bounds(2)) simp
  also have "\<dots> \<le> 2 powi (bexp x + 1)" by (simp add: two_powi_le_iff bexp_def)
  finally show ?thesis by (simp only: quantum_scale)
qed

lemma mantissa_bound:
  assumes "x \<noteq> 0"
  shows "\<bar>rhe (x / quantum x)\<bar> \<le> 2 ^ 53"
proof -
  define q where "q = quantum x"
  have q: "0 < q" by (simp add: q_def)
  from abs_less_scale [OF assms] have "\<bar>x\<bar> < q * 2 ^ 53" by (simp add: q_def)
  then have "\<bar>x\<bar> / q < 2 ^ 53" using q by (simp add: pos_divide_less_eq mult.commute)
  moreover have "\<bar>x / q\<bar> = \<bar>x\<bar> / q" using q by simp
  ultimately have "x / q \<le> 2 ^ 53" and "- (2 ^ 53) \<le> x / q" by linarith+
  then have u: "x / q \<le> of_int (2 ^ 53)" and l: "of_int (- (2 ^ 53)) \<le> x / q" by simp_all
  from u have "rhe (x / q) \<le> 2 ^ 53" by (rule rhe_le)
  moreover from l have "- (2 ^ 53) \<le> rhe (x / q)" by (rule rhe_ge)
  ultimately show ?thesis unfolding q_def by linarith
qed

lemma bexp_ge [simp]: "- 1022 \<le> bexp x"
  by (simp add: bexp_def)

lemma bexp_less: "x \<noteq> 0 \<Longrightarrow> \<bar>x\<bar> < 2 powi k \<Longrightarrow> - 1022 < k \<Longrightarrow> bexp x < k"
  using expo_less [of "\<bar>x\<bar>" k] by (simp add: bexp_def)

lemma bexp_eq: "2 powi k \<le> \<bar>x\<bar> \<Longrightarrow> \<bar>x\<bar> < 2 powi (k + 1) \<Longrightarrow> - 1022 \<le> k \<Longrightarrow> bexp x = k"
proof -
  assume a: "2 powi k \<le> \<bar>x\<bar>" "\<bar>x\<bar> < 2 powi (k + 1)" "- 1022 \<le> k"
  have "0 < (2::real) powi k" by simp
  with a(1) have "0 < \<bar>x\<bar>" by linarith
  from expo_unique [OF this a(1) a(2)] a(3) show ?thesis by (simp add: bexp_def)
qed

lemma quantum_ratio:
  "quantum x / quantum y = 2 powi (bexp x - bexp y)"
proof -
  have "(2::real) powi ((bexp x - 52) - (bexp y - 52)) = 2 powi (bexp x - 52) / 2 powi (bexp y - 52)"
    by (rule power_int_diff) simp
  then show ?thesis by (simp add: quantum_def)
qed

lemma fl_idem [simp]: "fl (fl x) = fl x"
proof (cases "x = 0")
  case True
  then show ?thesis by simp
next
  case False
  define n where "n = rhe (x / quantum x)"
  define y where "y = quantum x * of_int n"
  have y: "fl x = y" using False by (simp add: fl_def y_def n_def)
  have nb: "\<bar>n\<bar> \<le> 2 ^ 53" using mantissa_bound [OF False] by (simp add: n_def)
  have ay: "\<bar>y\<bar> = quantum x * of_int \<bar>n\<bar>"
    using quantum_pos [of x] by (simp add: y_def abs_mult)
  have "fl y = y"
  proof (cases "n = 0")
    case True
    then show ?thesis by (simp add: y_def)
  next
    case n0: False
    then have y0: "y \<noteq> 0" using quantum_pos [of x] by (simp add: y_def)
    show ?thesis
    proof (cases "\<bar>n\<bar> = 2 ^ 53")
      case True
      have "\<bar>y\<bar> = quantum x * 2 ^ 53" unfolding ay True by simp
      then have e: "\<bar>y\<bar> = 2 powi (bexp x + 1)" by (simp only: quantum_scale)
      have "bexp y = bexp x + 1"
      proof (rule bexp_eq)
        show "2 powi (bexp x + 1) \<le> \<bar>y\<bar>" using e by simp
        show "\<bar>y\<bar> < 2 powi (bexp x + 1 + 1)" unfolding e by (simp add: two_powi_less_iff)
        show "- 1022 \<le> bexp x + 1" using bexp_ge [of x] by linarith
      qed
      then have "quantum x / quantum y = 2 powi (- 1)" by (simp add: quantum_ratio)
      then have r: "quantum x / quantum y = 1 / 2" by simp
      have "n = 2 * 2 ^ 52 \<or> n = 2 * (- (2 ^ 52))" using True by (cases "0 \<le> n") auto
      then have "even n" by (metis dvd_triv_left)
      then obtain k where k: "n = 2 * k" by (elim evenE)
      have "y / quantum y = (quantum x / quantum y) * of_int n" by (simp add: y_def)
      also have "\<dots> = of_int k" by (simp add: r k)
      finally show ?thesis by (rule fl_exact)
    next
      case False
      with nb have "\<bar>n\<bar> < 2 ^ 53" by simp
      then have "(of_int \<bar>n\<bar> :: real) < 2 ^ 53" by (metis of_int_less_iff of_int_numeral of_int_power)
      then have "\<bar>y\<bar> < quantum x * 2 ^ 53"
        unfolding ay using quantum_pos [of x] by (simp only: mult_less_cancel_left_pos)
      then have "\<bar>y\<bar> < 2 powi (bexp x + 1)" by (simp only: quantum_scale)
      from bexp_less [OF y0 this] bexp_ge [of x] have le: "bexp y \<le> bexp x" by linarith
      then have "quantum x / quantum y = 2 ^ nat (bexp x - bexp y)"
        by (simp add: quantum_ratio power_int_nonneg_exp)
      then have r: "quantum x / quantum y = of_int (2 ^ nat (bexp x - bexp y))" by simp
      have "y / quantum y = (quantum x / quantum y) * of_int n" by (simp add: y_def)
      also have "\<dots> = of_int (2 ^ nat (bexp x - bexp y) * n)" unfolding r by simp
      finally show ?thesis by (rule fl_exact)
    qed
  qed
  with y show ?thesis by simp
qed


lemma inverse_quantum: "1 / quantum x = 2 powi (52 - bexp x)"
proof -
  have "(2::real) powi (- (bexp x - 52)) = 1 / 2 powi (bexp x - 52)"
    by (rule power_int_minus_divide)
  moreover have "- (bexp x - 52) = 52 - bexp x" by simp
  ultimately show ?thesis by (simp add: quantum_def)
qed

lemma fl_of_int:
  assumes "\<bar>n\<bar> \<le> 2 ^ 53"
  shows "fl (of_int n) = of_int n"
proof (cases "n = 0")
  case True
  then show ?thesis by simp
next
  case False
  define x :: real where "x = of_int n"
  have x0: "x \<noteq> 0" using False by (simp add: x_def)
  have "\<exists>m. x / quantum x = of_int m"
  proof (cases "\<bar>n\<bar> = 2 ^ 53")
    case True
    then have e: "\<bar>x\<bar> = 2 ^ 53" unfolding x_def by (metis of_int_abs of_int_numeral of_int_power)
    have "bexp x = 53"
    proof (rule bexp_eq)
      show "2 powi 53 \<le> \<bar>x\<bar>" using e by simp
      show "\<bar>x\<bar> < 2 powi (53 + 1)" using e by simp
    qed simp
    then have q: "quantum x = 2" by (simp add: quantum_def)
    have "n = 2 * 2 ^ 52 \<or> n = 2 * (- (2 ^ 52))" using True by (cases "0 \<le> n") auto
    then have "even n" by (metis dvd_triv_left)
    then obtain k where "n = 2 * k" by (elim evenE)
    then have xk: "x = 2 * of_int k" by (simp add: x_def)
    have "x / quantum x = x / 2" by (simp only: q)
    also have "\<dots> = of_int k" by (simp add: xk)
    finally show ?thesis ..
  next
    case neq: False
    with assms have "\<bar>n\<bar> < 2 ^ 53" by simp
    then have "\<bar>x\<bar> < 2 ^ 53" unfolding x_def by (metis of_int_abs of_int_less_iff of_int_numeral of_int_power)
    then have "\<bar>x\<bar> < 2 powi 53" by simp
    from bexp_less [OF x0 this] have "bexp x \<le> 52" by simp
    then have "1 / quantum x = 2 ^ nat (52 - bexp x)"
      by (simp add: inverse_quantum power_int_nonneg_exp)
    then have "x / quantum x = x * 2 ^ nat (52 - bexp x)"
      by (simp add: divide_inverse)
    also have "\<dots> = of_int (n * 2 ^ nat (52 - bexp x))"
      by (simp add: x_def)
    finally have "x / quantum x = of_int (n * 2 ^ nat (52 - bexp x))" .
    then show ?thesis ..
  qed
  then obtain m where "x / quantum x = of_int m" ..
  then have "fl x = x" by (rule fl_exact)
  then show ?thesis by (simp add: x_def)
qed

lemma large_double_is_int:
  assumes d: "fl x = x" and big: "2 ^ 52 \<le> \<bar>x\<bar>"
  shows "\<exists>k. x = of_int k"
proof -
  from big have x0: "x \<noteq> 0" by auto
  have "2 powi 52 \<le> \<bar>x\<bar>" using big by simp
  with x0 have "52 \<le> expo \<bar>x\<bar>" by (intro expo_ge) simp_all
  then have "52 \<le> bexp x" by (simp add: bexp_def)
  then have "quantum x = of_int (2 ^ nat (bexp x - 52))"
    by (simp add: quantum_def power_int_nonneg_exp)
  moreover have "x = quantum x * of_int (rhe (x / quantum x))"
    using d x0 by (simp add: fl_def)
  ultimately have "x = of_int (2 ^ nat (bexp x - 52) * rhe (x / quantum x))" by simp
  then show ?thesis ..
qed

lemma fl_round:
  assumes d: "fl x = x"
  shows "fl (of_int \<lfloor>x + 1 / 2\<rfloor>) = of_int \<lfloor>x + 1 / 2\<rfloor>"
proof (cases "2 ^ 52 \<le> \<bar>x\<bar>")
  case True
  from large_double_is_int [OF d True] obtain k where k: "x = of_int k" ..
  have "\<lfloor>x + 1 / 2\<rfloor> = k" unfolding k by linarith
  with d k show ?thesis by simp
next
  case False
  then have "\<bar>x\<bar> < 2 ^ 52" by simp
  then have "\<bar>x\<bar> < 4503599627370496" by simp
  then have "\<bar>\<lfloor>x + 1 / 2\<rfloor>\<bar> \<le> 9007199254740992" by linarith
  then have "\<bar>\<lfloor>x + 1 / 2\<rfloor>\<bar> \<le> 2 ^ 53" by simp
  then show ?thesis by (rule fl_of_int)
qed

lemma fl_error_below:
  assumes "\<bar>x\<bar> < 2 powi k" and "- 1022 < k"
  shows "\<bar>fl x - x\<bar> \<le> 2 powi (k - 54)"
proof (cases "x = 0")
  case True
  then show ?thesis by simp
next
  case False
  from bexp_less [OF False assms] have "bexp x - 53 \<le> k - 54" by simp
  then have "(2::real) powi (bexp x - 53) \<le> 2 powi (k - 54)" by (simp only: two_powi_le_iff)
  moreover have "(2::real) powi (bexp x - 53 + 1) = 2 * 2 powi (bexp x - 53)" by (rule two_powi_Suc)
  then have "quantum x / 2 = 2 powi (bexp x - 53)" by (simp add: quantum_def)
  ultimately show ?thesis using fl_error [of x] by simp
qed

lemma Abs_double_val [code abstype]: "Abs_double (val x) = x"
  by (rule val_inverse)

lemma fl_val [simp]: "fl (val x) = val x"
  using val [of x] by simp

lemma val_num [simp, code abstract]: "val (num x) = fl x"
  by (simp add: num_def Abs_double_inverse)

lemma val_d_add [simp, code abstract]: "val (d_add x y) = fl (val x + val y)"
  by (simp add: d_add_def Abs_double_inverse)

lemma val_d_mul [simp, code abstract]: "val (d_mul x y) = fl (val x * val y)"
  by (simp add: d_mul_def Abs_double_inverse)

lemma val_d_div [simp, code abstract]: "val (d_div x y) = fl (val x / val y)"
  by (simp add: d_div_def Abs_double_inverse)

lemma val_Math_round [simp, code abstract]: "val (Math_round x) = of_int \<lfloor>val x + 1 / 2\<rfloor>"
  by (simp add: Math_round_def Abs_double_inverse fl_round)

lemma double_eqI: "val x = val y \<Longrightarrow> x = y"
  by (simp add: val_inject)

lemma d_add_0_right [simp]: "d_add x (num 0) = x"
  by (rule double_eqI) simp

lemma d_add_0_left [simp]: "d_add (num 0) x = x"
  by (rule double_eqI) simp


lemma fl_numeral [simp]: "numeral n \<le> (2::int) ^ 53 \<Longrightarrow> fl (numeral n) = numeral n"
  using fl_of_int [of "numeral n"] by simp

lemma fl_1 [simp]: "fl 1 = 1"
  using fl_of_int [of 1] by simp

text \<open>Rules that evaluate \<open>fl\<close> on a literal.\<close>

lemma ex_up_rec: "2 \<le> x \<Longrightarrow> ex_up x = 1 + ex_up (x / 2)"
  by (subst ex_up.simps) simp

lemma ex_up_stop: "x < 2 \<Longrightarrow> ex_up x = 0"
  by (subst ex_up.simps) simp

lemma ex_down_rec: "0 < x \<Longrightarrow> x < 1 \<Longrightarrow> ex_down x = ex_down (2 * x) - 1"
  by (subst ex_down.simps) simp

lemma ex_down_stop: "1 \<le> x \<Longrightarrow> ex_down x = 0"
  by (subst ex_down.simps) simp

lemmas fl_eval = fl_def quantum_def bexp_def expo_def ex_up_rec ex_up_stop ex_down_rec ex_down_stop
  rhe_def Let_def


section \<open>Properties of the weekly total\<close>

lemma foldl_distance_or_0:
  "foldl (\<lambda>dayTotal run. d_add dayTotal (distance_or_0 run)) a rs
     = foldl d_add a (map (\<lambda>run. the (distance run)) (filter (\<lambda>run. distance run \<noteq> None) rs))"
  by (induction rs arbitrary: a) (auto simp: distance_or_0_def)

lemma bucket_total:
  "foldl (\<lambda>dayTotal run. d_add dayTotal (distance_or_0 run)) (num 0) (filter_Boolean b)
     = double_sum (numericDistances b)"
  unfolding double_sum_def numericDistances_def by (rule foldl_distance_or_0)

lemma recalculateWeeklyTotal_eq:
  "recalculateWeeklyTotal wk = wk\<lparr>weeklyTotal := Math_round (numericDistanceSum wk)\<rparr>"
  by (simp add: recalculateWeeklyTotal_def Let_def bucket_total numericDistanceSum_def
      Object_values_def double_sum_def foldl_map)

lemma days_recalculateWeeklyTotal [simp]:
  "days (recalculateWeeklyTotal wk) = days wk"
  by (simp add: recalculateWeeklyTotal_eq)

lemma weeklyTotal_recalculateWeeklyTotal:
  "weeklyTotal (recalculateWeeklyTotal wk) = Math_round (numericDistanceSum wk)"
  by (simp add: recalculateWeeklyTotal_eq)


section \<open>Provenance of the schema wrapper\<close>

lemma source_updateSchemaAfterEdit:
  "source (updateSchemaAfterEdit now schema p)
     = (if source schema = generated then edited else source schema)"
  by (simp add: updateSchemaAfterEdit_def Let_def)

lemma source_editsOf_not_generated:
  "source schema \<noteq> generated \<Longrightarrow> source (editsOf schema es) = source schema"
proof (induction es arbitrary: schema)
  case Nil
  then show ?case by simp
next
  case (Cons e es)
  obtain now p where e: "e = (now, p)" by (cases e)
  have "source (updateSchemaAfterEdit now schema p) = source schema"
    using Cons.prems by (simp add: source_updateSchemaAfterEdit)
  with Cons show ?case by (simp add: e)
qed

text \<open>
  C9. \<open>updateSchemaAfterEdit\<close> turns the source \<open>generated\<close> into \<open>edited\<close> and
  leaves \<open>edited\<close> and \<open>imported\<close> as they are; after one edit followed by any
  sequence of further edits the source is not \<open>generated\<close>, and it is the source the
  first edit left.
\<close>

theorem C9_source_monotonic:
  "source (updateSchemaAfterEdit now schema p)
     = (case source schema of generated \<Rightarrow> edited | imported \<Rightarrow> imported | edited \<Rightarrow> edited)
   \<and> source (editsOf (updateSchemaAfterEdit now schema p) es) \<noteq> generated
   \<and> source (editsOf (updateSchemaAfterEdit now schema p) es)
       = source (updateSchemaAfterEdit now schema p)"
proof -
  have one: "source (updateSchemaAfterEdit now schema p)
     = (case source schema of generated \<Rightarrow> edited | imported \<Rightarrow> imported | edited \<Rightarrow> edited)"
    by (cases "source schema") (simp_all add: source_updateSchemaAfterEdit)
  have ng: "source (updateSchemaAfterEdit now schema p) \<noteq> generated"
    by (cases "source schema") (simp_all add: source_updateSchemaAfterEdit)
  from source_editsOf_not_generated [OF ng]
  have keep: "source (editsOf (updateSchemaAfterEdit now schema p) es)
       = source (updateSchemaAfterEdit now schema p)" .
  from one ng keep show ?thesis by simp
qed

section \<open>Helper lemmas for the handlers\<close>


lemma length_Array_map [simp]: "length (Array_map f xs) = length xs"
  by (simp add: Array_map_def)

lemma nth_Array_map [simp]: "i < length xs \<Longrightarrow> Array_map f xs ! i = f (xs ! i) (int i)"
  by (simp add: Array_map_def)

lemma Array_map_unchanged:
  assumes "\<And>i. i < length xs \<Longrightarrow> f (xs ! i) (int i) = xs ! i"
  shows "Array_map f xs = xs"
  by (rule nth_equalityI) (simp_all add: assms)

lemma Array_map_update:
  assumes "k < length xs" and "\<And>i. i < length xs \<Longrightarrow> i \<noteq> k \<Longrightarrow> f (xs ! i) (int i) = xs ! i"
  shows "Array_map f xs = xs[k := f (xs ! k) (int k)]"
  by (rule nth_equalityI) (auto simp: assms nth_list_update)

lemma moveWorkout_map_skip:
  assumes "\<forall>j\<in>set js. int j \<noteq> fromWeekIndex a \<and> int j \<noteq> toWeekIndex a"
  shows "moveWorkout_map a (js @ ks) st acc recs = moveWorkout_map a ks st (acc @ map (\<lambda>j. st ! j) js) recs"
  using assms
proof (induction js arbitrary: acc)
  case Nil
  then show ?case by simp
next
  case (Cons j js)
  have cb: "moveWorkout_callback a st j = Inr (st, st ! j, [])"
    using Cons.prems by (simp add: moveWorkout_callback_def)
  show ?case using Cons by (simp add: cb)
qed

lemma moveWorkout_map_skip_all:
  assumes "\<forall>j\<in>set js. int j \<noteq> fromWeekIndex a \<and> int j \<noteq> toWeekIndex a"
  shows "moveWorkout_map a js st acc recs = Inr (acc @ map (\<lambda>j. st ! j) js, recs)"
  using moveWorkout_map_skip [OF assms, of "[]" st acc recs] by simp

lemma upt_split3: "i < n \<Longrightarrow> [0..<n] = [0..<i] @ i # [Suc i..<n]"
proof -
  assume lt: "i < n"
  have "[0..<i + (n - i)] = [0..<i] @ [i..<i + (n - i)]"
    by (rule upt_add_eq_append) simp
  with lt have "[0..<n] = [0..<i] @ [i..<n]" by simp
  with lt show ?thesis by (simp add: upt_conv_Cons)
qed

lemma recalculate_again:
  "recalculateWeeklyTotal ((recalculateWeeklyTotal wk)\<lparr>days := d\<rparr>) = recalculateWeeklyTotal (wk\<lparr>days := d\<rparr>)"
  by (simp add: recalculateWeeklyTotal_def Let_def)

lemma moveWorkout_callback_same_week:
  assumes "fromWeekIndex a = toWeekIndex a" and "int i = fromWeekIndex a"
  shows "moveWorkout_callback a st i =
     Inr (st[i := (st ! i)\<lparr>days := afterInsertion (st ! i) a\<rparr>],
          recalculateWeeklyTotal ((st ! i)\<lparr>days := afterInsertion (st ! i) a\<rparr>),
          [recalculateWeeklyTotal ((st ! i)\<lparr>days := afterRemoval (st ! i) a\<rparr>),
           recalculateWeeklyTotal ((st ! i)\<lparr>days := afterInsertion (st ! i) a\<rparr>)])"
  using assms
  by (simp add: moveWorkout_callback_def Let_def split_beta afterInsertion_def afterRemoval_def
      removedRun_def recalculate_again)

lemma moveWorkout_run_same_week:
  assumes same: "fromWeekIndex a = toWeekIndex a"
    and i0: "0 \<le> fromWeekIndex a" and iv: "nat (fromWeekIndex a) < length weeks"
  shows "moveWorkout_run weeks a =
     Inr (weeks[nat (fromWeekIndex a) :=
            recalculateWeeklyTotal ((weeks ! nat (fromWeekIndex a))\<lparr>days := afterInsertion (weeks ! nat (fromWeekIndex a)) a\<rparr>)],
          [recalculateWeeklyTotal ((weeks ! nat (fromWeekIndex a))\<lparr>days := afterRemoval (weeks ! nat (fromWeekIndex a)) a\<rparr>),
           recalculateWeeklyTotal ((weeks ! nat (fromWeekIndex a))\<lparr>days := afterInsertion (weeks ! nat (fromWeekIndex a)) a\<rparr>)])"
proof -
  define i where "i = nat (fromWeekIndex a)"
  define st' where "st' = weeks[i := (weeks ! i)\<lparr>days := afterInsertion (weeks ! i) a\<rparr>]"
  define res where "res = recalculateWeeklyTotal ((weeks ! i)\<lparr>days := afterInsertion (weeks ! i) a\<rparr>)"
  have ii: "int i = fromWeekIndex a" using i0 by (simp add: i_def)
  have lt: "i < length weeks" using iv by (simp add: i_def)
  have before: "\<forall>j\<in>set [0..<i]. int j \<noteq> fromWeekIndex a \<and> int j \<noteq> toWeekIndex a"
    using ii same by auto
  have after: "\<forall>j\<in>set [Suc i..<length weeks]. int j \<noteq> fromWeekIndex a \<and> int j \<noteq> toWeekIndex a"
    using ii same by auto
  have "moveWorkout_run weeks a = moveWorkout_map a ([0..<i] @ i # [Suc i..<length weeks]) weeks [] []"
    using upt_split3 [OF lt] by (simp add: moveWorkout_run_def)
  also have "\<dots> = moveWorkout_map a (i # [Suc i..<length weeks]) weeks (map (\<lambda>j. weeks ! j) [0..<i]) []"
    using moveWorkout_map_skip [OF before] by simp
  also have "\<dots> = moveWorkout_map a [Suc i..<length weeks] st' (map (\<lambda>j. weeks ! j) [0..<i] @ [res])
       [recalculateWeeklyTotal ((weeks ! i)\<lparr>days := afterRemoval (weeks ! i) a\<rparr>), res]"
    by (simp add: moveWorkout_callback_same_week [OF same ii] st'_def res_def)
  also have "\<dots> = Inr ((map (\<lambda>j. weeks ! j) [0..<i] @ [res]) @ map (\<lambda>j. st' ! j) [Suc i..<length weeks],
       [recalculateWeeklyTotal ((weeks ! i)\<lparr>days := afterRemoval (weeks ! i) a\<rparr>), res])"
    by (rule moveWorkout_map_skip_all [OF after])
  also have "(map (\<lambda>j. weeks ! j) [0..<i] @ [res]) @ map (\<lambda>j. st' ! j) [Suc i..<length weeks] = weeks[i := res]"
  proof (rule nth_equalityI)
    show "length ((map (\<lambda>j. weeks ! j) [0..<i] @ [res]) @ map (\<lambda>j. st' ! j) [Suc i..<length weeks]) = length (weeks[i := res])"
      using lt by simp
  next
    fix k assume "k < length ((map (\<lambda>j. weeks ! j) [0..<i] @ [res]) @ map (\<lambda>j. st' ! j) [Suc i..<length weeks])"
    then have k: "k < length weeks" using lt by simp
    consider "k < i" | "k = i" | "i < k" by linarith
    then show "((map (\<lambda>j. weeks ! j) [0..<i] @ [res]) @ map (\<lambda>j. st' ! j) [Suc i..<length weeks]) ! k = weeks[i := res] ! k"
    proof cases
      case 1 then show ?thesis using k by (simp add: nth_append)
    next
      case 2 then show ?thesis using k by (simp add: nth_append)
    next
      case 3 then show ?thesis using k by (simp add: nth_append st'_def)
    qed
  qed
  finally show ?thesis by (simp add: i_def res_def)
qed



lemma splice_delete1_beyond:
  "int (length xs) \<le> start \<Longrightarrow> splice_delete1 xs start = (xs, [])"
  by (simp add: splice_delete1_def splice_start_def Let_def)

lemma js_nth_outside:
  "i < 0 \<or> int (length xs) \<le> i \<Longrightarrow> js_nth xs i = None"
  by (auto simp: js_nth_def)

lemma moveWorkout_both_outside:
  assumes "fromWeekIndex a < 0 \<or> int (length weeks) \<le> fromWeekIndex a"
    and "toWeekIndex a < 0 \<or> int (length weeks) \<le> toWeekIndex a"
  shows "moveWorkout weeks a = Inr weeks"
proof -
  have "\<forall>j\<in>set [0..<length weeks]. int j \<noteq> fromWeekIndex a \<and> int j \<noteq> toWeekIndex a"
    using assms by auto
  from moveWorkout_map_skip_all [OF this]
  show ?thesis by (simp add: moveWorkout_def moveWorkout_run_def map_nth)
qed

lemma moveWorkout_source_outside:
  assumes f: "fromWeekIndex a < 0 \<or> int (length weeks) \<le> fromWeekIndex a"
    and t: "0 \<le> toWeekIndex a" "toWeekIndex a < int (length weeks)"
  shows "moveWorkout weeks a = Inl TypeError"
proof -
  define i where "i = nat (toWeekIndex a)"
  have ii: "int i = toWeekIndex a" and lt: "i < length weeks" using t by (simp_all add: i_def)
  have ne: "fromWeekIndex a \<noteq> toWeekIndex a" using f t by auto
  have before: "\<forall>j\<in>set [0..<i]. int j \<noteq> fromWeekIndex a \<and> int j \<noteq> toWeekIndex a"
    using ii f lt by auto
  have cb: "moveWorkout_callback a weeks i = Inl TypeError"
    using f ii ne by (auto simp: moveWorkout_callback_def Let_def)
  have "moveWorkout_run weeks a = moveWorkout_map a ([0..<i] @ i # [Suc i..<length weeks]) weeks [] []"
    using upt_split3 [OF lt] by (simp add: moveWorkout_run_def)
  also have "\<dots> = moveWorkout_map a (i # [Suc i..<length weeks]) weeks (map (\<lambda>j. weeks ! j) [0..<i]) []"
    using moveWorkout_map_skip [OF before] by simp
  also have "\<dots> = Inl TypeError" by (simp add: cb)
  finally show ?thesis by (simp add: moveWorkout_def)
qed

lemma handleUpdateRun_week_outside:
  "weekIndex < 0 \<or> int (length weeks) \<le> weekIndex \<Longrightarrow> handleUpdateRun weeks weekIndex day runIndex updates = weeks"
  unfolding handleUpdateRun_def by (rule Array_map_unchanged) auto

lemma handleAddRun_week_outside:
  "weekIndex < 0 \<or> int (length weeks) \<le> weekIndex \<Longrightarrow> handleAddRun weeks weekIndex day newId workout = weeks"
  unfolding handleAddRun_def by (rule Array_map_unchanged) auto

lemma handleRemoveRun_week_outside:
  "weekIndex < 0 \<or> int (length weeks) \<le> weekIndex \<Longrightarrow> handleRemoveRun weeks weekIndex day runIndex = weeks"
  unfolding handleRemoveRun_def by (rule Array_map_unchanged) auto

lemma reorderWithinDay_week_outside:
  assumes "weekIndex < 0 \<or> int (length weeks) \<le> weekIndex"
  shows "reorderWithinDay weeks weekIndex day runIndex overRunIndex = weeks"
proof (cases "runIndex = overRunIndex")
  case True
  then show ?thesis by (simp add: reorderWithinDay_def)
next
  case False
  have "Array_map (\<lambda>wk i. if i = weekIndex then
             (let (runs, removed) = splice_delete1 (days wk day) runIndex;
                  movedRun = first_of removed;
                  runs' = splice_insert runs overRunIndex movedRun
              in wk\<lparr>days := (days wk)(day := runs')\<rparr>)
           else wk) weeks = weeks"
    by (rule Array_map_unchanged) (use assms in auto)
  with False show ?thesis by (simp add: reorderWithinDay_def)
qed

lemma handleUpdateRun_run_outside:
  assumes "runIndex < 0 \<or> int (length (days (weeks ! nat weekIndex) day)) \<le> runIndex"
    and "0 \<le> weekIndex"
  shows "handleUpdateRun weeks weekIndex day runIndex updates = weeks"
  unfolding handleUpdateRun_def
proof (rule Array_map_unchanged)
  fix i assume "i < length weeks"
  show "(if int i = weekIndex
          then let runs = days (weeks ! i) day
               in case js_nth runs runIndex of
                    None \<Rightarrow> weeks ! i
                  | Some run \<Rightarrow> recalculateWeeklyTotal
                      ((weeks ! i)\<lparr>days := (days (weeks ! i))(day := runs[nat runIndex := Some (applyUpdates run updates)])\<rparr>)
          else weeks ! i) = weeks ! i"
  proof (cases "int i = weekIndex")
    case True
    then have "nat weekIndex = i" by simp
    with assms have "js_nth (days (weeks ! i) day) runIndex = None"
      by (simp add: js_nth_outside)
    with True show ?thesis by simp
  next
    case False
    then show ?thesis by simp
  qed
qed

lemma handleRemoveRun_run_beyond:
  assumes r: "int (length (days (weeks ! nat weekIndex) day)) \<le> runIndex"
    and w: "0 \<le> weekIndex" "weekIndex < int (length weeks)"
  shows "handleRemoveRun weeks weekIndex day runIndex
           = weeks[nat weekIndex := recalculateWeeklyTotal (weeks ! nat weekIndex)]"
proof -
  define k where "k = nat weekIndex"
  have kk: "int k = weekIndex" "k < length weeks" using w by (simp_all add: k_def)
  have del: "splice_delete1 (days (weeks ! k) day) runIndex = (days (weeks ! k) day, [])"
    using r by (simp add: splice_delete1_beyond k_def)
  have "handleRemoveRun weeks weekIndex day runIndex
      = weeks[k := (\<lambda>wk index. if index = weekIndex then
          (let runs = fst (splice_delete1 (days wk day) runIndex)
           in recalculateWeeklyTotal (wk\<lparr>days := (days wk)(day := runs)\<rparr>))
        else wk) (weeks ! k) (int k)]"
    unfolding handleRemoveRun_def
    by (rule Array_map_update) (use kk in auto)
  also have "\<dots> = weeks[k := recalculateWeeklyTotal (weeks ! k)]"
    by (simp add: kk del)
  finally show ?thesis by (simp add: k_def)
qed





lemma recalculate_mondayWeek: "recalculateWeeklyTotal (mondayWeek n) = mondayWeek n"
proof -
  have "Math_round (numericDistanceSum (mondayWeek n)) = num 5"
    by (rule double_eqI)
      (simp add: numericDistanceSum_def numericDistances_def days_list_def filter_Boolean_def
        double_sum_def mondayWeek_def easyRun5_def)
  then show ?thesis by (simp add: recalculateWeeklyTotal_eq mondayWeek_def)
qed

section \<open>Moving a workout\<close>

text \<open>
  A move from an earlier week to a later one reads the source bucket after the
  removal: with two Monday runs, moving the first one moves the second and leaves the
  second in place as well.
\<close>

lemma forward_move_duplicates_the_next_run:
  "map_sum id (\<lambda>ws. (workoutCount ws,
                      map (\<lambda>wk. map (map_option run_id) (days wk Mon)) ws,
                      map (\<lambda>wk. map (map_option run_id) (days wk Fri)) ws))
        (moveWorkout [twoRunWeek, emptyWeek 2]
           \<lparr>fromWeekIndex = 0, fromDay = Mon, fromRunIndex = 0,
            toWeekIndex = 1, toDay = Fri, toRunIndex = 0\<rparr>)
     = Inr (2, [[Some ''0-Mon-Long-z1x2c3v4b''], []], [[], [Some ''0-Mon-Long-z1x2c3v4b'']])"
  by code_simp

text \<open>
  C5. A move is meant to keep the number of workouts of the plan. The code does not:
  moving the only Monday run of week 0 to the empty Friday of week 1 empties the
  Monday bucket and puts a hole, not the run, into the Friday bucket, so the plan
  that had one workout has none. The callback for week 0 has already replaced
  \<^verbatim>\<open>weeks[0].days.Mon\<close> by the spliced copy when the callback for week 1 reads
  \<^verbatim>\<open>weeks[0].days.Mon[0]\<close>. The same move in the other direction, from week 1 to
  week 0, reads the run before it is removed and keeps the count.
\<close>

theorem C5_forward_move_across_weeks_loses_the_workout:
  "workoutCount [mondayWeek 1, emptyWeek 2] = 1
   \<and> map_sum id (\<lambda>ws. (workoutCount ws, map (\<lambda>wk. days wk Mon) ws, map (\<lambda>wk. days wk Fri) ws))
        (moveWorkout [mondayWeek 1, emptyWeek 2]
           \<lparr>fromWeekIndex = 0, fromDay = Mon, fromRunIndex = 0,
            toWeekIndex = 1, toDay = Fri, toRunIndex = 0\<rparr>)
       = Inr (0, [[], []], [[], [None]])
   \<and> map_sum id (\<lambda>ws. (workoutCount ws, map (\<lambda>wk. days wk Mon) ws, map (\<lambda>wk. days wk Fri) ws))
        (moveWorkout [emptyWeek 1, mondayWeek 2]
           \<lparr>fromWeekIndex = 1, fromDay = Mon, fromRunIndex = 0,
            toWeekIndex = 0, toDay = Fri, toRunIndex = 0\<rparr>)
       = Inr (1, [[], []], [[Some easyRun5], []])"
  by code_simp

text \<open>
  C6, as the code has it. A move between two days of one existing week calls
  \<open>recalculateWeeklyTotal\<close> twice: first on the week with the run removed and not yet
  inserted, then on the week with the run removed and inserted. The week of the
  resulting plan is the result of the second call, so its total is the rounded sum
  over the final buckets: the source bucket without the run and the destination
  bucket with it.
\<close>

theorem C6_same_week_move_recalculates_twice:
  assumes same: "fromWeekIndex a = toWeekIndex a" and other: "fromDay a \<noteq> toDay a"
    and valid: "0 \<le> fromWeekIndex a" "fromWeekIndex a < int (length weeks)"
  shows "moveWorkout_recalculations weeks a
       = Inr [recalculateWeeklyTotal ((weeks ! nat (fromWeekIndex a))\<lparr>days := afterRemoval (weeks ! nat (fromWeekIndex a)) a\<rparr>),
              recalculateWeeklyTotal ((weeks ! nat (fromWeekIndex a))\<lparr>days := afterInsertion (weeks ! nat (fromWeekIndex a)) a\<rparr>)]
     \<and> moveWorkout weeks a
       = Inr (weeks[nat (fromWeekIndex a) :=
                recalculateWeeklyTotal ((weeks ! nat (fromWeekIndex a))\<lparr>days := afterInsertion (weeks ! nat (fromWeekIndex a)) a\<rparr>)])
     \<and> weeklyTotal (recalculateWeeklyTotal ((weeks ! nat (fromWeekIndex a))\<lparr>days := afterInsertion (weeks ! nat (fromWeekIndex a)) a\<rparr>))
       = Math_round (numericDistanceSum ((weeks ! nat (fromWeekIndex a))\<lparr>days := afterInsertion (weeks ! nat (fromWeekIndex a)) a\<rparr>))
     \<and> afterInsertion (weeks ! nat (fromWeekIndex a)) a (fromDay a)
       = fst (splice_delete1 (days (weeks ! nat (fromWeekIndex a)) (fromDay a)) (fromRunIndex a))
     \<and> afterInsertion (weeks ! nat (fromWeekIndex a)) a (toDay a)
       = splice_insert (days (weeks ! nat (fromWeekIndex a)) (toDay a)) (toRunIndex a)
           (removedRun (weeks ! nat (fromWeekIndex a)) a)"
proof -
  have iv: "nat (fromWeekIndex a) < length weeks" using valid by simp
  note run = moveWorkout_run_same_week [OF same valid(1) iv]
  show ?thesis
    using other
    by (simp add: moveWorkout_recalculations_def moveWorkout_def run
        weeklyTotal_recalculateWeeklyTotal afterInsertion_def afterRemoval_def)
qed

theorem C6_same_week_move_recalculates_twice_witness:
  "moveWorkout_recalculations [mondayWeek 1] sameWeekMove
       = Inr [recalculateWeeklyTotal ((mondayWeek 1)\<lparr>days := afterRemoval (mondayWeek 1) sameWeekMove\<rparr>),
              recalculateWeeklyTotal ((mondayWeek 1)\<lparr>days := afterInsertion (mondayWeek 1) sameWeekMove\<rparr>)]
   \<and> afterInsertion (mondayWeek 1) sameWeekMove Tue = [Some easyRun5]
   \<and> afterInsertion (mondayWeek 1) sameWeekMove Mon = []"
  using C6_same_week_move_recalculates_twice [of sameWeekMove "[mondayWeek 1]"]
  by (simp add: sameWeekMove_def mondayWeek_def splice_delete1_def splice_insert_def splice_start_def
      removedRun_def first_of_def)

text \<open>
  The claim as stated fails: moving the 5 km run from Monday to Tuesday within week 0
  recomputes the total twice, and the first recomputation, on the buckets without
  the run, gives 0.
\<close>

theorem C6_counterexample_two_recalculations:
  "map_sum id (map (\<lambda>wk. (days wk Mon, days wk Tue, weeklyTotal wk)))
      (moveWorkout_recalculations [mondayWeek 1] sameWeekMove)
     = Inr [([], [], num 0), ([], [Some easyRun5], num 5)]"
  by code_simp

section \<open>Addresses that name no element\<close>

lemma handleUpdateRun_no_run:
  assumes "js_nth (days (weeks ! nat weekIndex) day) runIndex = None" and "0 \<le> weekIndex"
  shows "handleUpdateRun weeks weekIndex day runIndex updates = weeks"
  unfolding handleUpdateRun_def
proof (rule Array_map_unchanged)
  fix i assume "i < length weeks"
  show "(if int i = weekIndex
          then let runs = days (weeks ! i) day
               in case js_nth runs runIndex of
                    None \<Rightarrow> weeks ! i
                  | Some run \<Rightarrow> recalculateWeeklyTotal
                      ((weeks ! i)\<lparr>days := (days (weeks ! i))(day := runs[nat runIndex := Some (applyUpdates run updates)])\<rparr>)
          else weeks ! i) = weeks ! i"
  proof (cases "int i = weekIndex")
    case True
    then have "nat weekIndex = i" by simp
    with assms have "js_nth (days (weeks ! i) day) runIndex = None" by simp
    with True show ?thesis by simp
  next
    case False
    then show ?thesis by simp
  qed
qed

lemma handleRemoveRun_valid:
  assumes w: "0 \<le> weekIndex" "weekIndex < int (length weeks)"
  shows "handleRemoveRun weeks weekIndex day runIndex
           = weeks[nat weekIndex := recalculateWeeklyTotal
                ((weeks ! nat weekIndex)\<lparr>days := (days (weeks ! nat weekIndex))
                   (day := fst (splice_delete1 (days (weeks ! nat weekIndex) day) runIndex))\<rparr>)]"
proof -
  define k where "k = nat weekIndex"
  have kk: "int k = weekIndex" "k < length weeks" using w by (simp_all add: k_def)
  have "handleRemoveRun weeks weekIndex day runIndex
      = weeks[k := (\<lambda>wk index. if index = weekIndex then
          (let runs = fst (splice_delete1 (days wk day) runIndex)
           in recalculateWeeklyTotal (wk\<lparr>days := (days wk)(day := runs)\<rparr>))
        else wk) (weeks ! k) (int k)]"
    unfolding handleRemoveRun_def
    by (rule Array_map_update) (use kk in auto)
  then show ?thesis by (simp add: kk k_def [symmetric])
qed

lemma handleAddRun_valid:
  assumes w: "0 \<le> weekIndex" "weekIndex < int (length weeks)"
  shows "handleAddRun weeks weekIndex day newId workout
           = weeks[nat weekIndex := recalculateWeeklyTotal
                ((weeks ! nat weekIndex)\<lparr>days := (days (weeks ! nat weekIndex))
                   (day := days (weeks ! nat weekIndex) day @ [Some (newRun newId workout)])\<rparr>)]"
proof -
  define k where "k = nat weekIndex"
  have kk: "int k = weekIndex" "k < length weeks" using w by (simp_all add: k_def)
  have "handleAddRun weeks weekIndex day newId workout
      = weeks[k := (\<lambda>wk index. if index = weekIndex then
          (let runs = days wk day @ [Some (newRun newId workout)]
           in recalculateWeeklyTotal (wk\<lparr>days := (days wk)(day := runs)\<rparr>))
        else wk) (weeks ! k) (int k)]"
    unfolding handleAddRun_def
    by (rule Array_map_update) (use kk in auto)
  then show ?thesis by (simp add: kk k_def [symmetric])
qed

lemma reorderWithinDay_valid:
  assumes w: "0 \<le> weekIndex" "weekIndex < int (length weeks)" and ne: "runIndex \<noteq> overRunIndex"
  shows "reorderWithinDay weeks weekIndex day runIndex overRunIndex
           = weeks[nat weekIndex := (weeks ! nat weekIndex)\<lparr>days := (days (weeks ! nat weekIndex))
                (day := splice_insert (fst (splice_delete1 (days (weeks ! nat weekIndex) day) runIndex))
                          overRunIndex
                          (first_of (snd (splice_delete1 (days (weeks ! nat weekIndex) day) runIndex))))\<rparr>]"
proof -
  define k where "k = nat weekIndex"
  have kk: "int k = weekIndex" "k < length weeks" using w by (simp_all add: k_def)
  have "Array_map (\<lambda>wk i. if i = weekIndex then
             (let (runs, removed) = splice_delete1 (days wk day) runIndex;
                  movedRun = first_of removed;
                  runs' = splice_insert runs overRunIndex movedRun
              in wk\<lparr>days := (days wk)(day := runs')\<rparr>)
           else wk) weeks
      = weeks[k := (\<lambda>wk i. if i = weekIndex then
             (let (runs, removed) = splice_delete1 (days wk day) runIndex;
                  movedRun = first_of removed;
                  runs' = splice_insert runs overRunIndex movedRun
              in wk\<lparr>days := (days wk)(day := runs')\<rparr>)
           else wk) (weeks ! k) (int k)]"
    by (rule Array_map_update) (use kk in auto)
  then show ?thesis using ne by (simp add: reorderWithinDay_def kk k_def [symmetric] split_beta Let_def)
qed

lemma splice_delete1_negative:
  "start < 0 \<Longrightarrow>
   splice_delete1 xs start
     = (take (nat (max (int (length xs) + start) 0)) xs @ drop (Suc (nat (max (int (length xs) + start) 0))) xs,
        take 1 (drop (nat (max (int (length xs) + start) 0)) xs))"
  by (simp add: splice_delete1_def splice_start_def Let_def)

lemma moveWorkout_callback_returns:
  assumes "0 \<le> fromWeekIndex a" "nat (fromWeekIndex a) < length st"
  shows "\<exists>st' w calls. moveWorkout_callback a st i = Inr (st', w, calls) \<and> length st' = length st"
  using assms by (simp add: moveWorkout_callback_def Let_def split_beta)

lemma moveWorkout_map_returns:
  assumes "0 \<le> fromWeekIndex a" "nat (fromWeekIndex a) < length st"
  shows "\<exists>res. moveWorkout_map a js st acc recs = Inr res"
  using assms
proof (induction js arbitrary: st acc recs)
  case Nil
  then show ?case by simp
next
  case (Cons i js)
  from moveWorkout_callback_returns [OF Cons.prems, of i]
  obtain st' w calls where cb: "moveWorkout_callback a st i = Inr (st', w, calls)"
    and len: "length st' = length st" by blast
  from Cons.IH [of st'] Cons.prems len show ?case by (simp add: cb)
qed

lemma moveWorkout_returns:
  assumes "0 \<le> fromWeekIndex a" "fromWeekIndex a < int (length weeks)"
  shows "\<exists>ws. moveWorkout weeks a = Inr ws"
proof -
  have "nat (fromWeekIndex a) < length weeks" using assms by simp
  from moveWorkout_map_returns [OF assms(1) this, of "[0..<length weeks]" "[]" "[]"]
  show ?thesis by (auto simp: moveWorkout_def moveWorkout_run_def)
qed

lemma moveWorkout_destination_outside:
  assumes f: "0 \<le> fromWeekIndex a" "fromWeekIndex a < int (length weeks)"
    and t: "toWeekIndex a < 0 \<or> int (length weeks) \<le> toWeekIndex a"
  shows "moveWorkout weeks a
     = Inr (weeks[nat (fromWeekIndex a) :=
              recalculateWeeklyTotal ((weeks ! nat (fromWeekIndex a))\<lparr>days := afterRemoval (weeks ! nat (fromWeekIndex a)) a\<rparr>)])"
proof -
  define i where "i = nat (fromWeekIndex a)"
  define res where "res = recalculateWeeklyTotal ((weeks ! i)\<lparr>days := afterRemoval (weeks ! i) a\<rparr>)"
  define st' where "st' = weeks[i := (weeks ! i)\<lparr>days := afterRemoval (weeks ! i) a\<rparr>]"
  have ii: "int i = fromWeekIndex a" and lt: "i < length weeks" using f by (simp_all add: i_def)
  have ne: "fromWeekIndex a \<noteq> toWeekIndex a" using f t by auto
  have before: "\<forall>j\<in>set [0..<i]. int j \<noteq> fromWeekIndex a \<and> int j \<noteq> toWeekIndex a"
    using ii t lt by auto
  have after: "\<forall>j\<in>set [Suc i..<length weeks]. int j \<noteq> fromWeekIndex a \<and> int j \<noteq> toWeekIndex a"
    using ii t by auto
  have cb: "moveWorkout_callback a weeks i = Inr (st', res, [res])"
    using ii ne by (simp add: moveWorkout_callback_def Let_def split_beta afterRemoval_def st'_def res_def)
  have "moveWorkout_run weeks a = moveWorkout_map a ([0..<i] @ i # [Suc i..<length weeks]) weeks [] []"
    using upt_split3 [OF lt] by (simp add: moveWorkout_run_def)
  also have "\<dots> = moveWorkout_map a (i # [Suc i..<length weeks]) weeks (map (\<lambda>j. weeks ! j) [0..<i]) []"
    using moveWorkout_map_skip [OF before] by simp
  also have "\<dots> = moveWorkout_map a [Suc i..<length weeks] st' (map (\<lambda>j. weeks ! j) [0..<i] @ [res]) [res]"
    by (simp add: cb)
  also have "\<dots> = Inr ((map (\<lambda>j. weeks ! j) [0..<i] @ [res]) @ map (\<lambda>j. st' ! j) [Suc i..<length weeks], [res])"
    by (rule moveWorkout_map_skip_all [OF after])
  also have "(map (\<lambda>j. weeks ! j) [0..<i] @ [res]) @ map (\<lambda>j. st' ! j) [Suc i..<length weeks] = weeks[i := res]"
  proof (rule nth_equalityI)
    show "length ((map (\<lambda>j. weeks ! j) [0..<i] @ [res]) @ map (\<lambda>j. st' ! j) [Suc i..<length weeks]) = length (weeks[i := res])"
      using lt by simp
  next
    fix k assume "k < length ((map (\<lambda>j. weeks ! j) [0..<i] @ [res]) @ map (\<lambda>j. st' ! j) [Suc i..<length weeks])"
    then have k: "k < length weeks" using lt by simp
    consider "k < i" | "k = i" | "i < k" by linarith
    then show "((map (\<lambda>j. weeks ! j) [0..<i] @ [res]) @ map (\<lambda>j. st' ! j) [Suc i..<length weeks]) ! k = weeks[i := res] ! k"
    proof cases
      case 1 then show ?thesis using k by (simp add: nth_append)
    next
      case 2 then show ?thesis using k by (simp add: nth_append)
    next
      case 3 then show ?thesis using k by (simp add: nth_append st'_def)
    qed
  qed
  finally show ?thesis by (simp add: moveWorkout_def i_def res_def)
qed

lemma moveWorkout_fails_iff:
  "(\<exists>e. moveWorkout weeks a = Inl e)
     \<longleftrightarrow> (fromWeekIndex a < 0 \<or> int (length weeks) \<le> fromWeekIndex a)
         \<and> 0 \<le> toWeekIndex a \<and> toWeekIndex a < int (length weeks)"
proof (cases "0 \<le> fromWeekIndex a \<and> fromWeekIndex a < int (length weeks)")
  case True
  with moveWorkout_returns [of a weeks] obtain ws where "moveWorkout weeks a = Inr ws" by blast
  with True show ?thesis by auto
next
  case False
  then have f: "fromWeekIndex a < 0 \<or> int (length weeks) \<le> fromWeekIndex a" by auto
  show ?thesis
  proof (cases "0 \<le> toWeekIndex a \<and> toWeekIndex a < int (length weeks)")
    case True
    with moveWorkout_source_outside [OF f] have "moveWorkout weeks a = Inl TypeError" by simp
    with f True show ?thesis by simp
  next
    case False
    then have "toWeekIndex a < 0 \<or> int (length weeks) \<le> toWeekIndex a" by auto
    from moveWorkout_both_outside [OF f this] False show ?thesis by auto
  qed
qed

text \<open>
  C3, as the code has it. No handler reports an error for an address that names no
  element; the statement says what each does instead.
  \<^item> With a week index that is no position of \<open>weeks\<close>, \<open>handleUpdateRun\<close>,
    \<open>handleAddRun\<close>, \<open>handleRemoveRun\<close> and the reordering return the plan as it
    was.
  \<^item> With a week that exists, \<open>handleUpdateRun\<close> returns the plan as it was when
    \<open>runs[runIndex]\<close> is no run (the index is negative or beyond the bucket, or the
    entry is a hole).
  \<^item> With a week that exists, \<open>handleRemoveRun\<close> with a run index at or beyond the
    end of the bucket removes nothing and recomputes the total of the week; with a
    negative run index it removes the run that \<^verbatim>\<open>splice\<close> counts from the end,
    position \<open>max (length + runIndex) 0\<close>.
  \<^item> With a week that exists and two different indices, the reordering with an
    active index at or beyond the end removes nothing and inserts a hole at the
    other index; with a negative active index it moves the run counted from the
    end.
  \<^item> \<open>moveWorkout\<close> returns the plan as it was when neither its source week nor its
    destination week exists. When the source week exists and the destination week
    does not, it removes the run from the source week, recomputes that week's total
    and inserts the run nowhere. It ends with an exception in one case only, when the
    source week does not exist and the destination week does: the \<open>TypeError\<close> of
    reading \<^verbatim>\<open>weeks[fromWeekIndex].days\<close>.
\<close>

theorem C3_bad_addresses_report_no_error:
  "(weekIndex < 0 \<or> int (length weeks) \<le> weekIndex \<longrightarrow>
      handleUpdateRun weeks weekIndex day runIndex updates = weeks
    \<and> handleAddRun weeks weekIndex day newId workout = weeks
    \<and> handleRemoveRun weeks weekIndex day runIndex = weeks
    \<and> reorderWithinDay weeks weekIndex day runIndex overRunIndex = weeks)
   \<and> (0 \<le> weekIndex \<and> weekIndex < int (length weeks)
      \<and> js_nth (days (weeks ! nat weekIndex) day) runIndex = None \<longrightarrow>
      handleUpdateRun weeks weekIndex day runIndex updates = weeks)
   \<and> (0 \<le> weekIndex \<and> weekIndex < int (length weeks)
      \<and> int (length (days (weeks ! nat weekIndex) day)) \<le> runIndex \<longrightarrow>
      handleRemoveRun weeks weekIndex day runIndex
        = weeks[nat weekIndex := recalculateWeeklyTotal (weeks ! nat weekIndex)])
   \<and> (0 \<le> weekIndex \<and> weekIndex < int (length weeks) \<and> runIndex < 0 \<longrightarrow>
      handleRemoveRun weeks weekIndex day runIndex
        = weeks[nat weekIndex := recalculateWeeklyTotal
            ((weeks ! nat weekIndex)\<lparr>days := (days (weeks ! nat weekIndex))
               (day := take (nat (max (int (length (days (weeks ! nat weekIndex) day)) + runIndex) 0))
                         (days (weeks ! nat weekIndex) day)
                       @ drop (Suc (nat (max (int (length (days (weeks ! nat weekIndex) day)) + runIndex) 0)))
                           (days (weeks ! nat weekIndex) day))\<rparr>)])
   \<and> (0 \<le> weekIndex \<and> weekIndex < int (length weeks) \<and> runIndex \<noteq> overRunIndex
      \<and> int (length (days (weeks ! nat weekIndex) day)) \<le> runIndex \<longrightarrow>
      reorderWithinDay weeks weekIndex day runIndex overRunIndex
        = weeks[nat weekIndex := (weeks ! nat weekIndex)\<lparr>days := (days (weeks ! nat weekIndex))
            (day := splice_insert (days (weeks ! nat weekIndex) day) overRunIndex None)\<rparr>])
   \<and> (0 \<le> weekIndex \<and> weekIndex < int (length weeks) \<and> runIndex \<noteq> overRunIndex
      \<and> runIndex < 0 \<longrightarrow>
      reorderWithinDay weeks weekIndex day runIndex overRunIndex
        = weeks[nat weekIndex := (weeks ! nat weekIndex)\<lparr>days := (days (weeks ! nat weekIndex))
            (day := splice_insert
               (take (nat (max (int (length (days (weeks ! nat weekIndex) day)) + runIndex) 0))
                  (days (weeks ! nat weekIndex) day)
                @ drop (Suc (nat (max (int (length (days (weeks ! nat weekIndex) day)) + runIndex) 0)))
                    (days (weeks ! nat weekIndex) day))
               overRunIndex
               (first_of (take 1 (drop (nat (max (int (length (days (weeks ! nat weekIndex) day)) + runIndex) 0))
                                    (days (weeks ! nat weekIndex) day)))))\<rparr>])
   \<and> ((fromWeekIndex a < 0 \<or> int (length weeks) \<le> fromWeekIndex a)
      \<and> (toWeekIndex a < 0 \<or> int (length weeks) \<le> toWeekIndex a) \<longrightarrow>
      moveWorkout weeks a = Inr weeks)
   \<and> (0 \<le> fromWeekIndex a \<and> fromWeekIndex a < int (length weeks)
      \<and> (toWeekIndex a < 0 \<or> int (length weeks) \<le> toWeekIndex a) \<longrightarrow>
      moveWorkout weeks a
        = Inr (weeks[nat (fromWeekIndex a) := recalculateWeeklyTotal
                 ((weeks ! nat (fromWeekIndex a))\<lparr>days := afterRemoval (weeks ! nat (fromWeekIndex a)) a\<rparr>)]))
   \<and> ((fromWeekIndex a < 0 \<or> int (length weeks) \<le> fromWeekIndex a)
      \<and> 0 \<le> toWeekIndex a \<and> toWeekIndex a < int (length weeks) \<longrightarrow>
      moveWorkout weeks a = Inl TypeError)
   \<and> ((\<exists>e. moveWorkout weeks a = Inl e)
        \<longleftrightarrow> (fromWeekIndex a < 0 \<or> int (length weeks) \<le> fromWeekIndex a)
            \<and> 0 \<le> toWeekIndex a \<and> toWeekIndex a < int (length weeks))"
proof -
  have removeBeyond: "handleRemoveRun weeks weekIndex day runIndex
        = weeks[nat weekIndex := recalculateWeeklyTotal (weeks ! nat weekIndex)]"
    if "0 \<le> weekIndex \<and> weekIndex < int (length weeks)
        \<and> int (length (days (weeks ! nat weekIndex) day)) \<le> runIndex"
    using that handleRemoveRun_valid [of weekIndex weeks day runIndex]
    by (simp add: splice_delete1_beyond)
  have removeNegative: "handleRemoveRun weeks weekIndex day runIndex
        = weeks[nat weekIndex := recalculateWeeklyTotal
            ((weeks ! nat weekIndex)\<lparr>days := (days (weeks ! nat weekIndex))
               (day := take (nat (max (int (length (days (weeks ! nat weekIndex) day)) + runIndex) 0))
                         (days (weeks ! nat weekIndex) day)
                       @ drop (Suc (nat (max (int (length (days (weeks ! nat weekIndex) day)) + runIndex) 0)))
                           (days (weeks ! nat weekIndex) day))\<rparr>)]"
    if "0 \<le> weekIndex \<and> weekIndex < int (length weeks) \<and> runIndex < 0"
    using that handleRemoveRun_valid [of weekIndex weeks day runIndex]
    by (simp add: splice_delete1_negative)
  have reorderBeyond: "reorderWithinDay weeks weekIndex day runIndex overRunIndex
        = weeks[nat weekIndex := (weeks ! nat weekIndex)\<lparr>days := (days (weeks ! nat weekIndex))
            (day := splice_insert (days (weeks ! nat weekIndex) day) overRunIndex None)\<rparr>]"
    if "0 \<le> weekIndex \<and> weekIndex < int (length weeks) \<and> runIndex \<noteq> overRunIndex
      \<and> int (length (days (weeks ! nat weekIndex) day)) \<le> runIndex"
    using that reorderWithinDay_valid [of weekIndex weeks runIndex overRunIndex day]
    by (simp add: splice_delete1_beyond first_of_def)
  have reorderNegative: "reorderWithinDay weeks weekIndex day runIndex overRunIndex
        = weeks[nat weekIndex := (weeks ! nat weekIndex)\<lparr>days := (days (weeks ! nat weekIndex))
            (day := splice_insert
               (take (nat (max (int (length (days (weeks ! nat weekIndex) day)) + runIndex) 0))
                  (days (weeks ! nat weekIndex) day)
                @ drop (Suc (nat (max (int (length (days (weeks ! nat weekIndex) day)) + runIndex) 0)))
                    (days (weeks ! nat weekIndex) day))
               overRunIndex
               (first_of (take 1 (drop (nat (max (int (length (days (weeks ! nat weekIndex) day)) + runIndex) 0))
                                    (days (weeks ! nat weekIndex) day)))))\<rparr>]"
    if "0 \<le> weekIndex \<and> weekIndex < int (length weeks) \<and> runIndex \<noteq> overRunIndex \<and> runIndex < 0"
    using that reorderWithinDay_valid [of weekIndex weeks runIndex overRunIndex day]
    by (simp add: splice_delete1_negative)
  show ?thesis
    apply (intro conjI impI)
    subgoal by (rule handleUpdateRun_week_outside)
    subgoal by (rule handleAddRun_week_outside)
    subgoal by (rule handleRemoveRun_week_outside)
    subgoal by (rule reorderWithinDay_week_outside)
    subgoal by (rule handleUpdateRun_no_run) simp_all
    subgoal by (rule removeBeyond)
    subgoal by (rule removeNegative)
    subgoal by (rule reorderBeyond)
    subgoal by (rule reorderNegative)
    subgoal by (rule moveWorkout_both_outside) simp_all
    subgoal by (rule moveWorkout_destination_outside) simp_all
    subgoal by (rule moveWorkout_source_outside) simp_all
    subgoal by (rule moveWorkout_fails_iff)
    done
qed

lemma recalculate_emptied_mondayWeek:
  "recalculateWeeklyTotal ((mondayWeek n)\<lparr>days := (days (mondayWeek n))(Mon := [])\<rparr>)
     = (mondayWeek n)\<lparr>days := (days (mondayWeek n))(Mon := []), weeklyTotal := num 0\<rparr>"
proof -
  have "Math_round (numericDistanceSum ((mondayWeek n)\<lparr>days := (days (mondayWeek n))(Mon := [])\<rparr>)) = num 0"
    by (rule double_eqI)
      (simp add: numericDistanceSum_def numericDistances_def days_list_def filter_Boolean_def
        double_sum_def mondayWeek_def)
  then show ?thesis by (simp add: recalculateWeeklyTotal_eq)
qed

theorem C3_bad_addresses_report_no_error_witness:
  "handleUpdateRun [mondayWeek 1] 3 Mon 0 distance8 = [mondayWeek 1]
   \<and> handleAddRun [mondayWeek 1] 3 Mon ''3-Mon-Long-a1b2c3d4e'' longRun12 = [mondayWeek 1]
   \<and> handleRemoveRun [mondayWeek 1] 3 Mon 0 = [mondayWeek 1]
   \<and> reorderWithinDay [mondayWeek 1] 3 Mon 0 1 = [mondayWeek 1]
   \<and> moveWorkout [mondayWeek 1] (sameWeekMove\<lparr>fromWeekIndex := 2, toWeekIndex := 3\<rparr>) = Inr [mondayWeek 1]
   \<and> handleUpdateRun [mondayWeek 1] 0 Mon 4 distance8 = [mondayWeek 1]
   \<and> handleRemoveRun [mondayWeek 1] 0 Mon 4 = [mondayWeek 1]
   \<and> map (\<lambda>wk. days wk Mon) (reorderWithinDay [mondayWeek 1] 0 Mon 4 0) = [[None, Some easyRun5]]
   \<and> map_sum id (map (\<lambda>wk. (days wk Mon, weeklyTotal wk)))
        (moveWorkout [mondayWeek 1] (sameWeekMove\<lparr>toWeekIndex := 3\<rparr>)) = Inr [([], num 0)]
   \<and> map (\<lambda>wk. (days wk Mon, weeklyTotal wk)) (handleRemoveRun [mondayWeek 1] 0 Mon (- 1)) = [([], num 0)]
   \<and> map (\<lambda>wk. days wk Mon) (reorderWithinDay [mondayWeek 1] 0 Mon (- 1) 0) = [[Some easyRun5]]
   \<and> moveWorkout [mondayWeek 1] (sameWeekMove\<lparr>fromWeekIndex := 2\<rparr>) = Inl TypeError"
proof -
  have m: "days (mondayWeek 1) Mon = [Some easyRun5]" by (simp add: mondayWeek_def)
  have e: "(days (mondayWeek 1))(Mon := []) = (\<lambda>day. [])" by (auto simp: mondayWeek_def)
  note outside = C3_bad_addresses_report_no_error [of 3 "[mondayWeek 1]" Mon 0 distance8
      "''3-Mon-Long-a1b2c3d4e''" longRun12 1 "sameWeekMove\<lparr>fromWeekIndex := 2, toWeekIndex := 3\<rparr>"]
  note beyond = C3_bad_addresses_report_no_error [of 0 "[mondayWeek 1]" Mon 4 distance8
      "''3-Mon-Long-a1b2c3d4e''" longRun12 0 "sameWeekMove\<lparr>toWeekIndex := 3\<rparr>"]
  note negative = C3_bad_addresses_report_no_error [of 0 "[mondayWeek 1]" Mon "- 1" distance8
      "''3-Mon-Long-a1b2c3d4e''" longRun12 0 "sameWeekMove\<lparr>fromWeekIndex := 2\<rparr>"]
  from outside have
    "handleUpdateRun [mondayWeek 1] 3 Mon 0 distance8 = [mondayWeek 1]
     \<and> handleAddRun [mondayWeek 1] 3 Mon ''3-Mon-Long-a1b2c3d4e'' longRun12 = [mondayWeek 1]
     \<and> handleRemoveRun [mondayWeek 1] 3 Mon 0 = [mondayWeek 1]
     \<and> reorderWithinDay [mondayWeek 1] 3 Mon 0 1 = [mondayWeek 1]
     \<and> moveWorkout [mondayWeek 1] (sameWeekMove\<lparr>fromWeekIndex := 2, toWeekIndex := 3\<rparr>) = Inr [mondayWeek 1]"
    by (simp add: sameWeekMove_def)
  moreover from beyond have
    "handleUpdateRun [mondayWeek 1] 0 Mon 4 distance8 = [mondayWeek 1]
     \<and> handleRemoveRun [mondayWeek 1] 0 Mon 4 = [mondayWeek 1]
     \<and> map (\<lambda>wk. days wk Mon) (reorderWithinDay [mondayWeek 1] 0 Mon 4 0) = [[None, Some easyRun5]]
     \<and> map_sum id (map (\<lambda>wk. (days wk Mon, weeklyTotal wk)))
          (moveWorkout [mondayWeek 1] (sameWeekMove\<lparr>toWeekIndex := 3\<rparr>)) = Inr [([], num 0)]"
    by (simp add: sameWeekMove_def m js_nth_def recalculate_mondayWeek splice_insert_def splice_start_def
        afterRemoval_def splice_delete1_def recalculate_emptied_mondayWeek)
  moreover from negative have
    "map (\<lambda>wk. (days wk Mon, weeklyTotal wk)) (handleRemoveRun [mondayWeek 1] 0 Mon (- 1)) = [([], num 0)]
     \<and> map (\<lambda>wk. days wk Mon) (reorderWithinDay [mondayWeek 1] 0 Mon (- 1) 0) = [[Some easyRun5]]
     \<and> moveWorkout [mondayWeek 1] (sameWeekMove\<lparr>fromWeekIndex := 2\<rparr>) = Inl TypeError"
    by (simp add: sameWeekMove_def m splice_insert_def splice_start_def first_of_def
        recalculate_emptied_mondayWeek)
  ultimately show ?thesis by blast
qed

text \<open>
  The claim as stated fails: updating a run of week 3 or run 4 of Monday in a plan of
  one week with one Monday run, and removing run 0 of the empty Tuesday, all return
  the plan unchanged; moving the Monday run to week 3, which does not exist, returns
  a plan from which the run is gone.
\<close>

theorem C3_counterexample_silent_no_op:
  "handleUpdateRun [mondayWeek 1] 3 Mon 0 distance8 = [mondayWeek 1]
   \<and> handleUpdateRun [mondayWeek 1] 0 Mon 4 distance8 = [mondayWeek 1]
   \<and> handleRemoveRun [mondayWeek 1] 0 Tue 0 = [mondayWeek 1]
   \<and> workoutCount [mondayWeek 1] = 1
   \<and> map_sum id (\<lambda>ws. (workoutCount ws, map (\<lambda>wk. days wk Mon) ws))
        (moveWorkout [mondayWeek 1] (sameWeekMove\<lparr>toWeekIndex := 3\<rparr>)) = Inr (0, [[]])"
proof (intro conjI)
  show "handleUpdateRun [mondayWeek 1] 3 Mon 0 distance8 = [mondayWeek 1]"
    by (rule handleUpdateRun_week_outside) simp
  show "handleUpdateRun [mondayWeek 1] 0 Mon 4 distance8 = [mondayWeek 1]"
    by (rule handleUpdateRun_run_outside) (simp_all add: mondayWeek_def)
  have "handleRemoveRun [mondayWeek 1] 0 Tue 0 = [mondayWeek 1][nat 0 := recalculateWeeklyTotal ([mondayWeek 1] ! nat 0)]"
    by (rule handleRemoveRun_run_beyond) (simp_all add: mondayWeek_def)
  then show "handleRemoveRun [mondayWeek 1] 0 Tue 0 = [mondayWeek 1]"
    by (simp add: recalculate_mondayWeek)
  show "workoutCount [mondayWeek 1] = 1"
    by code_simp
  show "map_sum id (\<lambda>ws. (workoutCount ws, map (\<lambda>wk. days wk Mon) ws))
        (moveWorkout [mondayWeek 1] (sameWeekMove\<lparr>toWeekIndex := 3\<rparr>)) = Inr (0, [[]])"
    by code_simp
qed

section \<open>Changing the measurement type\<close>

lemma numericDistances_append [simp]:
  "numericDistances (xs @ ys) = numericDistances xs @ numericDistances ys"
  by (simp add: numericDistances_def filter_Boolean_def)

lemma numericDistances_single:
  "numericDistances [Some run] = (case distance run of None \<Rightarrow> [] | Some x \<Rightarrow> [x])"
  by (simp add: numericDistances_def filter_Boolean_def split: option.splits)


lemma numericDistances_Nil [simp]: "numericDistances [] = []"
  by (simp add: numericDistances_def filter_Boolean_def)


lemma double_sum_Nil [simp]: "double_sum [] = num 0"
  by (simp add: double_sum_def)

lemma double_sum_single [simp]: "double_sum [x] = x"
  by (simp add: double_sum_def)

lemma all_days: "d \<in> set days_list"
  by (cases d) (simp_all add: days_list_def)




lemma nearestWhole_round [simp]: "nearestWhole (of_int \<lfloor>s + 1 / 2\<rfloor>) s"
  unfolding nearestWhole_def by (simp; linarith)


lemma numericDistanceSum_weeklyTotal_update [simp]:
  "numericDistanceSum (wk\<lparr>weeklyTotal := t\<rparr>) = numericDistanceSum wk"
  by (simp add: numericDistanceSum_def)







section \<open>Unit conversion\<close>

lemma convertedEntry_simps [simp]:
  "convertedEntry u None = None"
  "convertedEntry u (Some run) = Some (fst (convertRun u run))"
  by (simp_all add: convertedEntry_def)

lemma totalAfterEntry_Some:
  "totalAfterEntry u t (Some run) = (case snd (convertRun u run) of None \<Rightarrow> t | Some c \<Rightarrow> d_add t c)"
  by (simp add: totalAfterEntry_def)

lemma convertRuns_Inr:
  "None \<notin> set rs \<Longrightarrow>
   convertRuns u rs t = Inr (map (convertedEntry u) rs, foldl (totalAfterEntry u) t rs)"
proof (induction rs arbitrary: t)
  case Nil
  then show ?case by simp
next
  case (Cons x rs)
  then obtain run where x: "x = Some run" by (cases x) auto
  from Cons have "convertRuns u rs (totalAfterEntry u t (Some run))
      = Inr (map (convertedEntry u) rs, foldl (totalAfterEntry u) (totalAfterEntry u t (Some run)) rs)"
    by simp
  then show ?case
    by (simp add: x split_beta totalAfterEntry_Some Let_def)
qed

lemma convertRuns_Inl:
  "\<not> None \<notin> set rs \<Longrightarrow> convertRuns u rs t = Inl TypeError"
proof (induction rs arbitrary: t)
  case Nil
  then show ?case by simp
next
  case (Cons x rs)
  show ?case
  proof (cases x)
    case None
    then show ?thesis by simp
  next
    case (Some run)
    with Cons.prems have "\<not> None \<notin> set rs" by simp
    from Cons.IH [OF this] show ?thesis by (simp add: Some split_beta Let_def)
  qed
qed

lemma convertDays_Inr:
  "list_all (\<lambda>d. None \<notin> set (D d)) ds \<Longrightarrow>
   convertDays u D ds cd t
     = Inr (\<lambda>d. if d \<in> set ds then map (convertedEntry u) (D d) else cd d,
            totalAfterDays u D ds t)"
proof (induction ds arbitrary: cd t)
  case Nil
  then show ?case by (simp add: totalAfterDays_def)
next
  case (Cons d ds)
  then show ?case
    by (simp add: convertRuns_Inr totalAfterDays_def) (rule ext, simp)
qed

lemma convertDays_Inl:
  "\<not> list_all (\<lambda>d. None \<notin> set (D d)) ds \<Longrightarrow> convertDays u D ds cd t = Inl TypeError"
proof (induction ds arbitrary: cd t)
  case Nil
  then show ?case by simp
next
  case (Cons d ds)
  show ?case
  proof (cases "None \<notin> set (D d)")
    case True
    with Cons.prems have "\<not> list_all (\<lambda>d. None \<notin> set (D d)) ds" by simp
    from Cons.IH [OF this] True show ?thesis by (simp add: convertRuns_Inr)
  next
    case False
    then show ?thesis using convertRuns_Inl [of "D d" u t] by simp
  qed
qed

lemma convertWeek_eq:
  "convertWeek u wk =
     (if list_all (\<lambda>d. None \<notin> set (days wk d)) days_list
      then Inr (convertedWeek u wk) else Inl TypeError)"
  by (simp add: convertWeek_def convertDays_Inr convertDays_Inl convertedWeek_def all_days)

lemma convertWeeks_eq:
  "convertWeeks u weeks = (if noHoles weeks then Inr (map (convertedWeek u) weeks) else Inl TypeError)"
proof (induction weeks)
  case Nil
  then show ?case by (simp add: noHoles_def)
next
  case (Cons wk weeks)
  then show ?case by (simp add: convertWeek_eq noHoles_def)
qed

lemma handleUnitToggle_eq:
  "handleUnitToggle u weeks = (if noHoles weeks then Inr (map (convertedWeek u) weeks) else Inl TypeError)"
  by (simp add: handleUnitToggle_def convertWeeks_eq)

lemma noHoles_converted: "noHoles weeks \<Longrightarrow> noHoles (map (convertedWeek u) weeks)"
  by (auto simp: noHoles_def list_all_iff convertedWeek_def convertedEntry_def)

lemma distance_converted_twice:
  "fst (convertRun miles (fst (convertRun km run)))
     = run\<lparr>distance := map_option thereAndBack (distance run)\<rparr>"
  by (cases "distance run")
    (simp_all add: convertRun_def thereAndBack_def roundTenth_def Let_def)

lemma convertThereAndBack_eq:
  "convertThereAndBack P =
     (if noHoles P then Inr (map (\<lambda>wk. convertedWeek miles (convertedWeek km wk)) P) else Inl TypeError)"
  by (simp add: convertThereAndBack_def handleUnitToggle_eq noHoles_converted comp_def)

lemma days_converted_twice:
  "days (convertedWeek miles (convertedWeek km wk)) d
     = map (map_option (\<lambda>run. run\<lparr>distance := map_option thereAndBack (distance run)\<rparr>)) (days wk d)"
  by (simp add: convertedWeek_def convertedEntry_def option.map_comp comp_def distance_converted_twice)

text \<open>The error of one operation on doubles below \<open>2\<^sup>2\<^sup>4\<close> is at most \<open>2\<^sup>-\<^sup>3\<^sup>0\<close>.\<close>

lemma fl_near:
  assumes "- 16777215 \<le> x" and "x \<le> 16777215"
  shows "fl x \<le> x + 1 / 1073741824" and "x - 1 / 1073741824 \<le> fl x"
proof -
  from assms have "\<bar>x\<bar> < 2 powi 24" by simp
  from fl_error_below [OF this] have "\<bar>fl x - x\<bar> \<le> 2 powi (- 30)" by simp
  then have "\<bar>fl x - x\<bar> \<le> 1 / 1073741824" by (simp add: power_int_minus_divide)
  then show "fl x \<le> x + 1 / 1073741824" and "x - 1 / 1073741824 \<le> fl x" by linarith+
qed

lemma round_near: "of_int \<lfloor>t + 1 / 2\<rfloor> \<le> t + 1 / 2" "t - 1 / 2 < of_int \<lfloor>t + 1 / 2\<rfloor>"
  by linarith+

lemma fl_conversion_factor: "fl (621371 / 1000000) = 5596812408117665 / 9007199254740992"
  by (simp add: fl_eval)

text \<open>
  \<open>Math.round(x * 10) / 10\<close> in doubles is within \<open>0.05\<close> and three operation errors
  of \<open>x\<close>.
\<close>

lemma roundTenth_near:
  assumes "- 1677721 \<le> val x" and "val x \<le> 1677721"
  shows "val (roundTenth x) \<le> val x + 1 / 20 + 3 / 1073741824"
    and "val x - 1 / 20 - 3 / 1073741824 \<le> val (roundTenth x)"
proof -
  define t where "t = fl (val x * 10)"
  define r :: real where "r = of_int \<lfloor>t + 1 / 2\<rfloor>"
  have v: "val (roundTenth x) = fl (r / 10)"
    by (simp add: roundTenth_def t_def r_def)
  from assms have "- 16777215 \<le> val x * 10" "val x * 10 \<le> 16777215" by simp_all
  from fl_near [OF this]
  have t: "t \<le> val x * 10 + 1 / 1073741824" "val x * 10 - 1 / 1073741824 \<le> t"
    by (simp_all add: t_def)
  from round_near [of t] have r: "r \<le> t + 1 / 2" "t - 1 / 2 < r" by (simp_all add: r_def)
  from assms t r have "- 16777215 \<le> r / 10" "r / 10 \<le> 16777215" by simp_all
  from fl_near [OF this]
  have m: "fl (r / 10) \<le> r / 10 + 1 / 1073741824" "r / 10 - 1 / 1073741824 \<le> fl (r / 10)" .
  from t r m show "val (roundTenth x) \<le> val x + 1 / 20 + 3 / 1073741824"
    unfolding v by linarith
  from t r m show "val x - 1 / 20 - 3 / 1073741824 \<le> val (roundTenth x)"
    unfolding v by linarith
qed

lemma thereAndBack_error:
  assumes "\<bar>val x\<bar> \<le> 1000000"
  shows "\<bar>val (thereAndBack x) - val x\<bar> \<le> 261 / 2000"
proof (cases "val x = 0")
  case True
  then show ?thesis by (simp add: thereAndBack_def)
next
  case False
  define c :: real where "c = 5596812408117665 / 9007199254740992"
  define p where "p = kmToMiles x"
  define m where "m = roundTenth p"
  from assms have x: "- 1000000 \<le> val x" "val x \<le> 1000000" by linarith+
  have pv: "val p = fl (val x * c)"
    by (simp add: p_def kmToMiles_def fl_conversion_factor c_def)
  from x have "- 16777215 \<le> val x * c" "val x * c \<le> 16777215" by (simp_all add: c_def)
  from fl_near [OF this]
  have p: "val p \<le> val x * c + 1 / 1073741824" "val x * c - 1 / 1073741824 \<le> val p"
    by (simp_all add: pv)
  from x p have "- 1677721 \<le> val p" "val p \<le> 1677721" by (simp_all add: c_def)
  from roundTenth_near [OF this]
  have m: "val m \<le> val p + 1 / 20 + 3 / 1073741824" "val p - 1 / 20 - 3 / 1073741824 \<le> val m"
    by (simp_all add: m_def)
  show ?thesis
  proof (cases "val m = 0")
    case True
    then have "thereAndBack x = m"
      using False by (simp add: thereAndBack_def Let_def m_def p_def)
    with True have "val (thereAndBack x) = 0" by simp
    moreover from p m True have "val x * c \<le> 51 / 1000" "- 51 / 1000 \<le> val x * c" by simp_all
    then have "val x \<le> 1 / 10" "- 1 / 10 \<le> val x" by (simp_all add: c_def)
    ultimately show ?thesis by simp
  next
    case m0: False
    define u where "u = milesToKm m"
    have r: "thereAndBack x = roundTenth u"
      using False m0 by (simp add: thereAndBack_def Let_def m_def p_def u_def)
    have uv: "val u = fl (val m / c)"
      by (simp add: u_def milesToKm_def fl_conversion_factor c_def)
    have dc: "val m / c = val m * (9007199254740992 / 5596812408117665)"
      by (simp add: c_def)
    from x p m have "- 16777215 \<le> val m / c" "val m / c \<le> 16777215"
      unfolding dc by (simp_all add: c_def)
    from fl_near [OF this]
    have u: "val u \<le> val m / c + 1 / 1073741824" "val m / c - 1 / 1073741824 \<le> val u"
      by (simp_all add: uv)
    from x p m u have "- 1677721 \<le> val u" "val u \<le> 1677721"
      unfolding dc by (simp_all add: c_def)
    from roundTenth_near [OF this]
    have y: "val (roundTenth u) \<le> val u + 1 / 20 + 3 / 1073741824"
      "val u - 1 / 20 - 3 / 1073741824 \<le> val (roundTenth u)" .
    from p m u y have "val (roundTenth u) - val x \<le> 261 / 2000" "- (261 / 2000) \<le> val (roundTenth u) - val x"
      unfolding dc by (simp_all add: c_def)
    then show ?thesis unfolding r by linarith
  qed
qed

text \<open>
  C7, as the code has it. For every plan with no hole in its buckets, converting from
  kilometres to miles and back succeeds, keeps every run in its place and changes
  nothing but the distances. A run without a distance stays without one. A run with
  a distance \<open>x\<close> gets the distance \<open>thereAndBack x\<close>, which is within 0.1305 km of
  \<open>x\<close> when \<open>x\<close> is at most a million kilometres in size: each of the two roundings
  to one decimal adds up to 0.05, the first one in miles, and the operations on
  doubles add less than a millionth. This holds for every run with a distance,
  whatever its \<open>measurementType\<close>.
\<close>

theorem C7_round_trip_error_bound:
  assumes "noHoles P"
  shows "\<exists>P2. convertThereAndBack P = Inr P2 \<and> length P2 = length P
     \<and> (\<forall>i<length P. \<forall>d. length (days (P2 ! i) d) = length (days (P ! i) d)
          \<and> (\<forall>j<length (days (P ! i) d). \<exists>run run2.
                days (P ! i) d ! j = Some run \<and> days (P2 ! i) d ! j = Some run2
              \<and> run2 = run\<lparr>distance := distance run2\<rparr>
              \<and> (case distance run of
                    None \<Rightarrow> distance run2 = None
                  | Some x \<Rightarrow> distance run2 = Some (thereAndBack x)
                       \<and> (\<bar>val x\<bar> \<le> 1000000 \<longrightarrow> \<bar>val (thereAndBack x) - val x\<bar> \<le> 261 / 2000))))"
proof -
  define P2 where "P2 = map (\<lambda>wk. convertedWeek miles (convertedWeek km wk)) P"
  have run: "convertThereAndBack P = Inr P2"
    using assms by (simp add: convertThereAndBack_eq P2_def)
  have entry: "\<exists>run run2.
                days (P ! i) d ! j = Some run \<and> days (P2 ! i) d ! j = Some run2
              \<and> run2 = run\<lparr>distance := distance run2\<rparr>
              \<and> (case distance run of
                    None \<Rightarrow> distance run2 = None
                  | Some x \<Rightarrow> distance run2 = Some (thereAndBack x)
                       \<and> (\<bar>val x\<bar> \<le> 1000000 \<longrightarrow> \<bar>val (thereAndBack x) - val x\<bar> \<le> 261 / 2000))"
    if i: "i < length P" and j: "j < length (days (P ! i) d)" for i d j
  proof -
    have "P ! i \<in> set P" using i by simp
    with assms have "None \<notin> set (days (P ! i) d)"
      using all_days [of d] by (auto simp: noHoles_def list_all_iff)
    with j have "days (P ! i) d ! j \<noteq> None" by (metis nth_mem)
    then obtain run where r: "days (P ! i) d ! j = Some run" by auto
    define run2 where "run2 = run\<lparr>distance := map_option thereAndBack (distance run)\<rparr>"
    have r2: "days (P2 ! i) d ! j = Some run2"
      using i j r by (simp add: P2_def days_converted_twice run2_def)
    have same: "run2 = run\<lparr>distance := distance run2\<rparr>" by (simp add: run2_def)
    have dist: "(case distance run of
                    None \<Rightarrow> distance run2 = None
                  | Some x \<Rightarrow> distance run2 = Some (thereAndBack x)
                       \<and> (\<bar>val x\<bar> \<le> 1000000 \<longrightarrow> \<bar>val (thereAndBack x) - val x\<bar> \<le> 261 / 2000))"
      using thereAndBack_error by (cases "distance run") (simp_all add: run2_def)
    from r r2 same dist show ?thesis by blast
  qed
  have len: "length (days (P2 ! i) d) = length (days (P ! i) d)" if "i < length P" for i d
    using that by (simp add: P2_def days_converted_twice)
  have "length P2 = length P" by (simp add: P2_def)
  with run entry len show ?thesis by blast
qed

theorem C7_round_trip_error_bound_witness:
  "\<exists>P2 run2. convertThereAndBack [mondayWeek 1] = Inr P2
     \<and> days (P2 ! 0) Mon ! 0 = Some run2 \<and> distance run2 = Some (thereAndBack (num 5))
     \<and> \<bar>val (thereAndBack (num 5)) - 5\<bar> \<le> 261 / 2000"
proof -
  have h: "noHoles [mondayWeek 1]"
    by (simp add: noHoles_def mondayWeek_def days_list_def)
  from C7_round_trip_error_bound [OF h]
  obtain P2 where a: "convertThereAndBack [mondayWeek 1] = Inr P2"
    and b: "\<forall>i<length [mondayWeek 1]. \<forall>d. length (days (P2 ! i) d) = length (days ([mondayWeek 1] ! i) d)
          \<and> (\<forall>j<length (days ([mondayWeek 1] ! i) d). \<exists>run run2.
                days ([mondayWeek 1] ! i) d ! j = Some run \<and> days (P2 ! i) d ! j = Some run2
              \<and> run2 = run\<lparr>distance := distance run2\<rparr>
              \<and> (case distance run of
                    None \<Rightarrow> distance run2 = None
                  | Some x \<Rightarrow> distance run2 = Some (thereAndBack x)
                       \<and> (\<bar>val x\<bar> \<le> 1000000 \<longrightarrow> \<bar>val (thereAndBack x) - val x\<bar> \<le> 261 / 2000)))"
    by blast
  have i: "0 < length [mondayWeek 1]" by simp
  have j: "0 < length (days ([mondayWeek 1] ! 0) Mon)" by (simp add: mondayWeek_def)
  from b [rule_format, OF i, of Mon, THEN conjunct2, rule_format, OF j]
  obtain run run2 where r: "days ([mondayWeek 1] ! 0) Mon ! 0 = Some run"
    and r2: "days (P2 ! 0) Mon ! 0 = Some run2"
    and d: "case distance run of
                    None \<Rightarrow> distance run2 = None
                  | Some x \<Rightarrow> distance run2 = Some (thereAndBack x)
                       \<and> (\<bar>val x\<bar> \<le> 1000000 \<longrightarrow> \<bar>val (thereAndBack x) - val x\<bar> \<le> 261 / 2000)"
    by blast
  from r have "run = easyRun5" by (simp add: mondayWeek_def)
  then have "distance run = Some (num 5)" by (simp add: easyRun5_def)
  with d have "distance run2 = Some (thereAndBack (num 5))"
    and "\<bar>val (thereAndBack (num 5)) - 5\<bar> \<le> 261 / 2000"
    by simp_all
  with a r2 show ?thesis by blast
qed

lemma thereAndBack_072: "val (thereAndBack (num 0.72)) = val (num 0.6)"
  by (simp add: thereAndBack_def roundTenth_def kmToMiles_def milesToKm_def fl_eval)

text \<open>
  The claim as stated fails: a run of 0.72 km becomes 0.4 miles and then 0.6 km, which
  is 0.12 km from the original.
\<close>

theorem C7_counterexample_round_trip_off_by_more_than_a_tenth:
  "map_sum id (map (\<lambda>wk. map (map_option (map_option val \<circ> distance)) (days wk Mon)))
      (convertThereAndBack [shortRunWeek (num 0.72)])
     = Inr [[Some (Some (val (num 0.6)))]]
   \<and> \<bar>val (num 0.6) - val (num 0.72)\<bar> > 1 / 10"
proof
  have "noHoles [shortRunWeek (num 0.72)]"
    by (simp add: noHoles_def shortRunWeek_def days_list_def)
  with thereAndBack_072
  show "map_sum id (map (\<lambda>wk. map (map_option (map_option val \<circ> distance)) (days wk Mon)))
      (convertThereAndBack [shortRunWeek (num 0.72)])
     = Inr [[Some (Some (val (num 0.6)))]]"
    by (simp add: convertThereAndBack_eq days_converted_twice shortRunWeek_def easyRun5_def)
  show "\<bar>val (num 0.6) - val (num 0.72)\<bar> > 1 / 10"
    by (simp add: fl_eval)
qed

end
